theory Spec2Isabelle
  imports Complex_Main
begin

section \<open>Values of the ledger\<close>

text \<open>
  The ledger of \<^verbatim>\<open>app.py\<close> stores pledges (\<^verbatim>\<open>Engagement\<close>), payments
  (\<^verbatim>\<open>Paiement\<close>), members (\<^verbatim>\<open>Membre\<close>) and sent reminders
  (\<^verbatim>\<open>Notification\<close>). Amounts are Python floats: every handler reads them with
  \<^verbatim>\<open>float(...)\<close>. A float is modelled by the rational number it denotes, or one of the
  three special values; the sign of zero is not modelled.
\<close>

datatype pyfloat = Fin rat | PInf | NInf | NaN

datatype date = Date (year: nat) (month: nat) (day: nat)

datatype datetime = Datetime (date_part: date) (seconds: nat)

datatype exn = TypeError | ValueError | AttributeError | GatewayError

subsection \<open>Binary64 rounding\<close>

text \<open>
  Python floats are IEEE 754 binary64 numbers, and \<^verbatim>\<open>float(s)\<close>, \<^verbatim>\<open>+\<close> and
  \<^verbatim>\<open>-\<close> return the representable number nearest to the exact result, ties going to the
  even significand. The recursion is on \<open>int\<close>, so that the kernel evaluates it on
  binary numerals.
\<close>

function bitlen_int :: "int \<Rightarrow> int" where
  "bitlen_int n = (if n \<le> 0 then 0 else 1 + bitlen_int (n div 2))"
  by pat_completeness auto
termination
  by (relation "measure nat") auto

function pow2n :: "int \<Rightarrow> rat" where
  "pow2n n = (if n \<le> 0 then 1
              else if even n then (let h = pow2n (n div 2) in h * h)
              else 2 * pow2n (n - 1))"
  by pat_completeness auto
termination
  by (relation "measure nat") auto

text \<open>Both equations are unfolded by hand where a proof needs them.\<close>

declare bitlen_int.simps [simp del]

declare pow2n.simps [simp del]

definition pow2 :: "int \<Rightarrow> rat" where
  "pow2 e = (if 0 \<le> e then pow2n e else 1 / pow2n (- e))"

definition half_even :: "rat \<Rightarrow> int" where
  "half_even x = (let f = \<lfloor>x\<rfloor>; r = x - of_int f in
     if r < 1 / 2 then f else if 1 / 2 < r then f + 1 else if even f then f else f + 1)"

definition ilog2 :: "rat \<Rightarrow> int" where
  "ilog2 x = (let (p, q) = quotient_of x; d = bitlen_int p - bitlen_int q
              in if pow2 d \<le> x then d else d - 1)"

definition round64 :: "rat \<Rightarrow> pyfloat" where
  "round64 x = (if x = 0 then Fin 0 else
     let a = \<bar>x\<bar>; e = max (ilog2 a) (- 1022); q = pow2 (e - 52);
         r = of_int (half_even (a / q)) * q
     in if pow2 1024 \<le> r then (if 0 < x then PInf else NInf)
        else Fin (if 0 < x then r else - r))"

fun fadd :: "pyfloat \<Rightarrow> pyfloat \<Rightarrow> pyfloat" where
  "fadd (Fin a) (Fin b) = round64 (a + b)"
| "fadd NaN _ = NaN"
| "fadd _ NaN = NaN"
| "fadd PInf NInf = NaN"
| "fadd NInf PInf = NaN"
| "fadd PInf _ = PInf"
| "fadd _ PInf = PInf"
| "fadd NInf _ = NInf"
| "fadd _ NInf = NInf"

fun fneg :: "pyfloat \<Rightarrow> pyfloat" where
  "fneg (Fin a) = Fin (- a)"
| "fneg PInf = NInf"
| "fneg NInf = PInf"
| "fneg NaN = NaN"

definition fsub :: "pyfloat \<Rightarrow> pyfloat \<Rightarrow> pyfloat" where
  "fsub x y = fadd x (fneg y)"

text \<open>The comparisons \<^verbatim>\<open>x <= y\<close> and \<^verbatim>\<open>x > y\<close>: both are false when a side is NaN.\<close>

fun fle :: "pyfloat \<Rightarrow> pyfloat \<Rightarrow> bool" where
  "fle NaN _ = False"
| "fle _ NaN = False"
| "fle NInf _ = True"
| "fle _ PInf = True"
| "fle (Fin a) (Fin b) = (a \<le> b)"
| "fle PInf _ = False"
| "fle _ NInf = False"

definition fgt :: "pyfloat \<Rightarrow> pyfloat \<Rightarrow> bool" where
  "fgt x y = (x \<noteq> NaN \<and> y \<noteq> NaN \<and> \<not> fle x y)"

subsection \<open>Python helpers\<close>

text \<open>Truth value of an optional string: \<^verbatim>\<open>None\<close> and \<^verbatim>\<open>''\<close> are false.\<close>

fun truthy :: "string option \<Rightarrow> bool" where
  "truthy None = False"
| "truthy (Some s) = (s \<noteq> [])"

text \<open>\<^verbatim>\<open>a or b\<close> on an optional string and a string.\<close>

definition py_or :: "string option \<Rightarrow> string \<Rightarrow> string" where
  "py_or a b = (case a of None \<Rightarrow> b | Some s \<Rightarrow> if s \<noteq> [] then s else b)"

definition is_space :: "char \<Rightarrow> bool" where
  "is_space c = (c \<in> set [CHR '' '', CHR 0x09, CHR 0x0A, CHR 0x0B, CHR 0x0C, CHR 0x0D])"

definition strip :: "string \<Rightarrow> string" where
  "strip s = rev (dropWhile is_space (rev (dropWhile is_space s)))"

section \<open>Tables\<close>

record carte_bapteme =
  c_nom :: "string option"

record membre =
  m_id :: nat
  code_membre :: string
  telephone :: "string option"
  apikey_callmebot :: "string option"
  cartebapteme :: "carte_bapteme option"

record engagement =
  e_id :: nat
  e_membre_id :: nat
  montant_total :: pyfloat
  date_limite :: date
  description :: string
  e_statut :: string

record paiement =
  p_id :: nat
  p_engagement_id :: nat
  montant :: pyfloat
  date_paiement :: date

text \<open>
  The text of a message is a fixed template filled with a name, amounts and a date;
  the model keeps the template's name and the values that fill it.
\<close>

datatype message =
    Msg_nouvel_engagement "string option" pyfloat date
  | Msg_souscription "string option" pyfloat date
  | Msg_paiement string pyfloat date
  | Msg_rappel string pyfloat date pyfloat pyfloat
  | Msg_solde string pyfloat date pyfloat

record notification =
  n_id :: nat
  n_membre_id :: nat
  n_engagement_id :: nat
  n_message :: message
  n_statut :: string
  date_envoi :: datetime

record tables =
  membres :: "membre list"
  engagements :: "engagement list"
  paiements :: "paiement list"
  notifications :: "notification list"

text \<open>
  The status strings of the source: the one of a settled pledge, the one of an open pledge
  and the one of a sent notification. Their accented e is the code point 0xE9.
\<close>

definition paye :: string where
  "paye = ''pay'' @ [CHR 0xE9]"

definition en_cours :: string where
  "en_cours = ''en cours''"

definition envoyee :: string where
  "envoyee = ''envoy'' @ [CHR 0xE9] @ ''e''"

section \<open>The request: session, gateway, flashes\<close>

datatype gw_result = Returned bool | Raised

datatype methode = GET | POST

datatype flash =
    Membre_introuvable
  | Montant_nombre_positif
  | Format_date_incorrect
  | Engagement_ajoute
  | Engagement_introuvable
  | Montant_invalide
  | Date_incorrecte
  | Paiement_modifie
  | Notification_envoyee
  | Notification_impossible
  | Notifications_envoyees nat
  | Profil_non_trouve
  | Engagement_souscrit
  | Erreur exn

datatype categorie = Success | Danger | Warning | Info

record recu =
  r_membre :: "string option"
  r_montant :: pyfloat
  r_date_paiement :: date
  r_engagement_date :: date
  r_total_engage :: pyfloat
  r_reste :: pyfloat

datatype response =
    Redirect string
  | Render string
  | Render_recu recu
  | Abort404
  | Abort500 exn

text \<open>
  What the handlers take from outside: Python's \<^verbatim>\<open>float\<close> and
  \<^verbatim>\<open>datetime.strptime(_, '%Y-%m-%d')\<close> on a string (\<open>None\<close> is ValueError), the clock,
  and the gateway \<^verbatim>\<open>utils.envoyer_whatsapp\<close>, whose outcome may depend on how many calls
  were made before; it returns (its result is never read by a handler) or raises.
\<close>

record env =
  float_of :: "string \<Rightarrow> pyfloat option"
  strptime :: "string \<Rightarrow> date option"
  utcnow :: datetime
  gateway :: "nat \<Rightarrow> string option \<Rightarrow> string option \<Rightarrow> message \<Rightarrow> gw_result"

text \<open>
  \<open>committed\<close> is the database, \<open>session\<close> the view of the SQLAlchemy session:
  \<^verbatim>\<open>db.session.add\<close> and attribute assignments change the session only,
  \<^verbatim>\<open>commit\<close> writes it to the database, \<^verbatim>\<open>rollback\<close> forgets what was not committed.
\<close>

record world =
  committed :: tables
  session :: tables
  outbox :: "(string option \<times> string option \<times> message) list"
  flashes :: "(flash \<times> categorie) list"

definition nouvelle_requete :: "tables \<Rightarrow> world" where
  "nouvelle_requete t = \<lparr>committed = t, session = t, outbox = [], flashes = []\<rparr>"

definition commit :: "world \<Rightarrow> world" where
  "commit w = w\<lparr>committed := session w\<rparr>"

definition rollback :: "world \<Rightarrow> world" where
  "rollback w = w\<lparr>session := committed w\<rparr>"

definition flash_msg :: "flash \<Rightarrow> categorie \<Rightarrow> world \<Rightarrow> world" where
  "flash_msg m c w = w\<lparr>flashes := flashes w @ [(m, c)]\<rparr>"

text \<open>\<^verbatim>\<open>float(s)\<close>: TypeError on \<^verbatim>\<open>None\<close>, ValueError on a string that is no number.\<close>

definition py_float :: "env \<Rightarrow> string option \<Rightarrow> exn + pyfloat" where
  "py_float env s = (case s of None \<Rightarrow> Inl TypeError
     | Some t \<Rightarrow> (case float_of env t of None \<Rightarrow> Inl ValueError | Some x \<Rightarrow> Inr x))"

definition py_strptime :: "env \<Rightarrow> string option \<Rightarrow> exn + date" where
  "py_strptime env s = (case s of None \<Rightarrow> Inl TypeError
     | Some t \<Rightarrow> (case strptime env t of None \<Rightarrow> Inl ValueError | Some d \<Rightarrow> Inr d))"

text \<open>
  \<^verbatim>\<open>montant = float(montant_str); if montant <= 0: raise ValueError("Montant invalide")\<close>
\<close>

definition lire_montant :: "env \<Rightarrow> string option \<Rightarrow> exn + pyfloat" where
  "lire_montant env s = (case py_float env s of Inl e \<Rightarrow> Inl e
     | Inr x \<Rightarrow> if fle x (Fin 0) then Inl ValueError else Inr x)"

text \<open>\<^verbatim>\<open>Model.query.get(k)\<close>: the row with primary key \<open>k\<close>, if any.\<close>

definition query_get :: "('a \<Rightarrow> nat) \<Rightarrow> 'a list \<Rightarrow> nat option \<Rightarrow> 'a option" where
  "query_get key rows k = (case k of None \<Rightarrow> None | Some i \<Rightarrow> find (\<lambda>r. key r = i) rows)"

text \<open>The primary key given to a new row: one more than the largest in the table.\<close>

definition nouvel_id :: "nat list \<Rightarrow> nat" where
  "nouvel_id ids = Suc (fold max ids 0)"

text \<open>The relationships \<^verbatim>\<open>engagement.membre\<close> and \<^verbatim>\<open>engagement.paiements\<close>.\<close>

definition membre_de :: "tables \<Rightarrow> engagement \<Rightarrow> membre option" where
  "membre_de t e = find (\<lambda>m. m_id m = e_membre_id e) (membres t)"

definition paiements_de :: "tables \<Rightarrow> engagement \<Rightarrow> paiement list" where
  "paiements_de t e = filter (\<lambda>p. p_engagement_id p = e_id e) (paiements t)"

text \<open>\<^verbatim>\<open>sum(p.montant for p in engagement.paiements)\<close>, which starts from 0.\<close>

definition total_paye :: "tables \<Rightarrow> engagement \<Rightarrow> pyfloat" where
  "total_paye t e = foldl fadd (Fin 0) (map montant (paiements_de t e))"

text \<open>
  Modelled from the spec: \<^verbatim>\<open>Engagement.montant_restant()\<close> is a method of
  \<^verbatim>\<open>models.py\<close>, which is not among the sources. The spec: "\<^verbatim>\<open>amountRemaining(commitment)\<close>
  returns \<^verbatim>\<open>max(0, total - sum of payments)\<close>". Python's \<^verbatim>\<open>max(0, x)\<close> is \<open>x\<close> when
  \<^verbatim>\<open>x > 0\<close> and 0 otherwise.
\<close>

definition montant_restant :: "tables \<Rightarrow> engagement \<Rightarrow> pyfloat" where
  "montant_restant t e =
     (let x = fsub (montant_total e) (total_paye t e) in if fgt x (Fin 0) then x else Fin 0)"

text \<open>The gateway call: the call is made, then it returns or raises.\<close>

definition envoyer_whatsapp ::
  "env \<Rightarrow> string option \<Rightarrow> string option \<Rightarrow> message \<Rightarrow> world \<Rightarrow> (exn \<times> world) + world" where
  "envoyer_whatsapp env tel key msg w =
     (let w' = w\<lparr>outbox := outbox w @ [(tel, key, msg)]\<rparr>
      in case gateway env (length (outbox w)) tel key msg of
           Raised \<Rightarrow> Inl (GatewayError, w')
         | Returned _ \<Rightarrow> Inr w')"

section \<open>Payments\<close>

record paiement_form =
  pf_engagement_id :: "nat option"
  pf_montant :: "string option"
  pf_date_paiement :: "string option"

definition add_paiement :: "paiement \<Rightarrow> world \<Rightarrow> world" where
  "add_paiement p w = w\<lparr>session := (session w)\<lparr>paiements := paiements (session w) @ [p]\<rparr>\<rparr>"

text \<open>
  \<^verbatim>\<open>try: date_paiement = datetime.strptime(date_str, '%Y-%m-%d').date()\<close>,
  \<^verbatim>\<open>except Exception: date_paiement = datetime.utcnow().date()\<close>
\<close>

definition lire_date_paiement :: "env \<Rightarrow> string option \<Rightarrow> date" where
  "lire_date_paiement env s =
     (case py_strptime env s of Inl _ \<Rightarrow> date_part (utcnow env) | Inr d \<Rightarrow> d)"

text \<open>\<^verbatim>\<open>Paiement(engagement_id=..., montant=..., date_paiement=...)\<close>, with the key it
  gets when it is written.\<close>

definition nouveau_paiement :: "world \<Rightarrow> nat \<Rightarrow> pyfloat \<Rightarrow> date \<Rightarrow> paiement" where
  "nouveau_paiement w eid mnt dp =
     \<lparr>p_id = nouvel_id (map p_id (paiements (session w))), p_engagement_id = eid,
      montant = mnt, date_paiement = dp\<rparr>"

text \<open>
  The body of the \<^verbatim>\<open>try\<close> of \<^verbatim>\<open>ajouter_paiement\<close>: \<open>Inl\<close> is an exception that reaches
  the handler's \<^verbatim>\<open>except Exception\<close>, with the state at the time it was raised.
\<close>

definition ajouter_paiement_essai ::
  "env \<Rightarrow> paiement_form \<Rightarrow> world \<Rightarrow> (exn \<times> world) + (response \<times> world)" where
  "ajouter_paiement_essai env f w =
    (case query_get e_id (engagements (session w)) (pf_engagement_id f) of
       None \<Rightarrow> Inr (Redirect ''ajouter_paiement'', flash_msg Engagement_introuvable Danger w)
     | Some engagement \<Rightarrow>
        (case lire_montant env (pf_montant f) of
           Inl _ \<Rightarrow> Inr (Redirect ''ajouter_paiement'', flash_msg Montant_invalide Warning w)
         | Inr mnt \<Rightarrow>
           (let dp = lire_date_paiement env (pf_date_paiement f);
                p = nouveau_paiement w (e_id engagement) mnt dp;
                w1 = commit (add_paiement p w);
                mb = membre_de (session w1) engagement
            in (case (case mb of
                       None \<Rightarrow> Inr w1
                     | Some m \<Rightarrow>
                        if truthy (apikey_callmebot m)
                        then (case cartebapteme m of
                                None \<Rightarrow> Inl (AttributeError, w1)
                              | Some c \<Rightarrow>
                                 envoyer_whatsapp env (telephone m) (apikey_callmebot m)
                                   (Msg_paiement (py_or (c_nom c) (code_membre m)) mnt
                                      (date_limite engagement)) w1)
                        else Inr w1) of
                 Inl x \<Rightarrow> Inl x
               | Inr w2 \<Rightarrow>
                  (case mb of
                     None \<Rightarrow> Inl (AttributeError, w2)
                   | Some m \<Rightarrow>
                      (case cartebapteme m of
                         None \<Rightarrow> Inl (AttributeError, w2)
                       | Some c \<Rightarrow>
                          Inr (Render_recu
                                \<lparr>r_membre = c_nom c, r_montant = mnt, r_date_paiement = dp,
                                 r_engagement_date = date_limite engagement,
                                 r_total_engage = montant_total engagement,
                                 r_reste = montant_restant (session w2) engagement\<rparr>, w2)))))))"

definition ajouter_paiement :: "env \<Rightarrow> methode \<Rightarrow> paiement_form \<Rightarrow> world \<Rightarrow> response \<times> world" where
  "ajouter_paiement env meth f w =
    (case meth of
       GET \<Rightarrow> (Render ''paiements/ajouter.html'', w)
     | POST \<Rightarrow>
        (case ajouter_paiement_essai env f w of
           Inr r \<Rightarrow> r
         | Inl (e, w') \<Rightarrow>
            (Render ''paiements/ajouter.html'', flash_msg (Erreur e) Danger (rollback w'))))"

text \<open>
  \<^verbatim>\<open>modifier_paiement\<close>: an assignment to an attribute of the loaded row changes the
  session's view of that row.
\<close>

record paiement_modif_form =
  pm_montant :: "string option"
  pm_date_paiement :: "string option"

fun maj_premier :: "('a \<Rightarrow> bool) \<Rightarrow> ('a \<Rightarrow> 'a) \<Rightarrow> 'a list \<Rightarrow> 'a list" where
  "maj_premier P g [] = []"
| "maj_premier P g (x # xs) = (if P x then g x # xs else x # maj_premier P g xs)"

definition maj_paiement :: "nat \<Rightarrow> (paiement \<Rightarrow> paiement) \<Rightarrow> world \<Rightarrow> world" where
  "maj_paiement i g w =
     w\<lparr>session := (session w)\<lparr>paiements := maj_premier (\<lambda>p. p_id p = i) g (paiements (session w))\<rparr>\<rparr>"

definition modifier_paiement :: "env \<Rightarrow> nat \<Rightarrow> paiement_modif_form \<Rightarrow> world \<Rightarrow> response \<times> world" where
  "modifier_paiement env i f w =
    (case query_get p_id (paiements (session w)) (Some i) of
       None \<Rightarrow> (Abort404, w)
     | Some p \<Rightarrow>
        (case py_float env (pm_montant f) of
           Inl e \<Rightarrow> (Redirect ''liste_paiements'', flash_msg (Erreur e) Danger (rollback w))
         | Inr mnt \<Rightarrow>
            if fle mnt (Fin 0)
            then (Redirect ''liste_paiements'', flash_msg Montant_invalide Warning w)
            else (case py_strptime env (pm_date_paiement f) of
                    Inl _ \<Rightarrow> (Redirect ''liste_paiements'', flash_msg Date_incorrecte Danger w)
                  | Inr d \<Rightarrow>
                     (let w1 = maj_paiement i (\<lambda>q. q\<lparr>date_paiement := d\<rparr>) w;
                          w2 = maj_paiement i (\<lambda>q. q\<lparr>montant := mnt\<rparr>) w1;
                          w3 = commit w2
                      in (Redirect ''liste_paiements'', flash_msg Paiement_modifie Success w3)))))"

section \<open>Pledges\<close>

text \<open>
  Modelled from the spec: the default of the column \<^verbatim>\<open>Engagement.statut\<close> is declared in
  \<^verbatim>\<open>models.py\<close>, which is not among the sources; the handlers create an
  \<^verbatim>\<open>Engagement\<close> without a status. The spec: "persists a new OPEN Commitment". The open
  status is the one \<^verbatim>\<open>modifier_engagement\<close> falls back to.
\<close>

definition statut_defaut :: string where
  "statut_defaut = en_cours"

record engagement_form =
  ef_membre_id :: "nat option"
  ef_montant :: "string option"
  ef_date_limite :: "string option"
  ef_description :: "string option"

definition add_engagement :: "engagement \<Rightarrow> world \<Rightarrow> world" where
  "add_engagement e w = w\<lparr>session := (session w)\<lparr>engagements := engagements (session w) @ [e]\<rparr>\<rparr>"

text \<open>\<^verbatim>\<open>request.form.get('description', '').strip()\<close>\<close>

definition lire_description :: "string option \<Rightarrow> string" where
  "lire_description d = strip (case d of None \<Rightarrow> [] | Some s \<Rightarrow> s)"

definition nouvel_engagement :: "world \<Rightarrow> nat \<Rightarrow> pyfloat \<Rightarrow> date \<Rightarrow> string \<Rightarrow> engagement" where
  "nouvel_engagement w mid mnt dl descr =
     \<lparr>e_id = nouvel_id (map e_id (engagements (session w))), e_membre_id = mid,
      montant_total = mnt, date_limite = dl, description = descr, e_statut = statut_defaut\<rparr>"

definition ajouter_engagement_essai ::
  "env \<Rightarrow> engagement_form \<Rightarrow> world \<Rightarrow> (exn \<times> world) + (response \<times> world)" where
  "ajouter_engagement_essai env f w =
    (case query_get m_id (membres (session w)) (ef_membre_id f) of
       None \<Rightarrow> Inr (Redirect ''ajouter_engagement'', flash_msg Membre_introuvable Danger w)
     | Some m \<Rightarrow>
        (case lire_montant env (ef_montant f) of
           Inl _ \<Rightarrow> Inr (Redirect ''ajouter_engagement'', flash_msg Montant_nombre_positif Warning w)
         | Inr mnt \<Rightarrow>
            (case py_strptime env (ef_date_limite f) of
               Inl _ \<Rightarrow> Inr (Redirect ''ajouter_engagement'', flash_msg Format_date_incorrect Danger w)
             | Inr dl \<Rightarrow>
                (let e = nouvel_engagement w (m_id m) mnt dl (lire_description (ef_description f));
                     w1 = commit (add_engagement e w)
                 in (case (if truthy (apikey_callmebot m)
                           then (case cartebapteme m of
                                   None \<Rightarrow> Inl (AttributeError, w1)
                                 | Some c \<Rightarrow>
                                    envoyer_whatsapp env (telephone m) (apikey_callmebot m)
                                      (Msg_nouvel_engagement (c_nom c) mnt dl) w1)
                           else Inr w1) of
                       Inl x \<Rightarrow> Inl x
                     | Inr w2 \<Rightarrow>
                        Inr (Redirect ''liste_engagements'', flash_msg Engagement_ajoute Success w2))))))"

definition ajouter_engagement :: "env \<Rightarrow> methode \<Rightarrow> engagement_form \<Rightarrow> world \<Rightarrow> response \<times> world" where
  "ajouter_engagement env meth f w =
    (case meth of
       GET \<Rightarrow> (Render ''engagements/ajouter.html'', w)
     | POST \<Rightarrow>
        (case ajouter_engagement_essai env f w of
           Inr r \<Rightarrow> r
         | Inl (e, w') \<Rightarrow>
            (Render ''engagements/ajouter.html'', flash_msg (Erreur e) Danger (rollback w'))))"


section \<open>Notifications\<close>

definition add_notification :: "notification \<Rightarrow> world \<Rightarrow> world" where
  "add_notification n w =
     w\<lparr>session := (session w)\<lparr>notifications := notifications (session w) @ [n]\<rparr>\<rparr>"

text \<open>The guard \<^verbatim>\<open>membre and membre.apikey_callmebot and membre.telephone\<close> on a found member.\<close>

definition coordonnees_completes :: "membre \<Rightarrow> bool" where
  "coordonnees_completes m = (truthy (apikey_callmebot m) \<and> truthy (telephone m))"

text \<open>
  \<^verbatim>\<open>membre.cartebapteme.nom if membre.cartebapteme and membre.cartebapteme.nom
  else membre.code_membre\<close>
\<close>

definition nom_affiche :: "membre \<Rightarrow> string" where
  "nom_affiche m = (case cartebapteme m of None \<Rightarrow> code_membre m
                    | Some c \<Rightarrow> py_or (c_nom c) (code_membre m))"

text \<open>The reminder of \<^verbatim>\<open>notifier_membre_engagement\<close>: the name shown, the total, the due
  date, the sum paid and the amount left.\<close>

definition rappel_manuel :: "tables \<Rightarrow> engagement \<Rightarrow> membre \<Rightarrow> message" where
  "rappel_manuel t e m = Msg_rappel (nom_affiche m) (montant_total e) (date_limite e)
      (total_paye t e) (montant_restant t e)"

definition notifier_membre_engagement :: "env \<Rightarrow> nat \<Rightarrow> world \<Rightarrow> response \<times> world" where
  "notifier_membre_engagement env i w =
    (case query_get e_id (engagements (session w)) (Some i) of
       None \<Rightarrow> (Abort404, w)
     | Some engagement \<Rightarrow>
        (case membre_de (session w) engagement of
           None \<Rightarrow> (Redirect ''liste_engagements'', flash_msg Notification_impossible Warning w)
         | Some m \<Rightarrow>
            if coordonnees_completes m
            then (let msg = rappel_manuel (session w) engagement m
                  in (case envoyer_whatsapp env (telephone m) (apikey_callmebot m) msg w of
                        Inl (ex, w') \<Rightarrow> (Abort500 ex, w')
                      | Inr w1 \<Rightarrow>
                         (let n = \<lparr>n_id = nouvel_id (map n_id (notifications (session w1))),
                                   n_membre_id = m_id m, n_engagement_id = e_id engagement,
                                   n_message = msg, n_statut = envoyee, date_envoi = utcnow env\<rparr>;
                              w2 = commit (add_notification n w1)
                          in (Redirect ''liste_engagements'',
                              flash_msg Notification_envoyee Success w2))))
            else (Redirect ''liste_engagements'', flash_msg Notification_impossible Warning w)))"

text \<open>
  The loop of \<^verbatim>\<open>notifier_tous_membres\<close> with its counter \<^verbatim>\<open>cpt\<close>. Nothing in the
  loop catches an exception: the first one ends it.
\<close>

fun notifier_boucle ::
  "env \<Rightarrow> engagement list \<Rightarrow> nat \<Rightarrow> world \<Rightarrow> (exn \<times> world) + (nat \<times> world)" where
  "notifier_boucle env [] cpt w = Inr (cpt, w)"
| "notifier_boucle env (e # es) cpt w =
    (case membre_de (session w) e of
       None \<Rightarrow> notifier_boucle env es cpt w
     | Some m \<Rightarrow>
        if coordonnees_completes m
        then (case cartebapteme m of
                None \<Rightarrow> Inl (AttributeError, w)
              | Some c \<Rightarrow>
                 (case envoyer_whatsapp env (telephone m) (apikey_callmebot m)
                         (Msg_solde (py_or (c_nom c) (code_membre m)) (montant_total e)
                            (date_limite e) (montant_restant (session w) e)) w of
                    Inl x \<Rightarrow> Inl x
                  | Inr w' \<Rightarrow> notifier_boucle env es (cpt + 1) w'))
        else notifier_boucle env es cpt w)"

text \<open>
  For the statements about the loop: the pledges for which it calls the gateway, and the
  call it makes for one of them.
\<close>

definition notifiable :: "tables \<Rightarrow> engagement \<Rightarrow> bool" where
  "notifiable t e = (case membre_de t e of None \<Rightarrow> False | Some m \<Rightarrow> coordonnees_completes m)"

definition appel_solde ::
  "tables \<Rightarrow> engagement \<Rightarrow> (string option \<times> string option \<times> message) list" where
  "appel_solde t e =
     (case membre_de t e of
        None \<Rightarrow> []
      | Some m \<Rightarrow>
         (case cartebapteme m of
            None \<Rightarrow> []
          | Some c \<Rightarrow>
             [(telephone m, apikey_callmebot m,
               Msg_solde (py_or (c_nom c) (code_membre m)) (montant_total e) (date_limite e)
                 (montant_restant t e))]))"

text \<open>\<^verbatim>\<open>Engagement.query.filter(Engagement.statut != ...)\<close>, with the settled status.\<close>

definition non_payes :: "tables \<Rightarrow> engagement list" where
  "non_payes t = filter (\<lambda>e. e_statut e \<noteq> paye) (engagements t)"

definition notifier_tous_membres :: "env \<Rightarrow> world \<Rightarrow> response \<times> world" where
  "notifier_tous_membres env w =
    (case notifier_boucle env (non_payes (session w)) 0 w of
       Inl (ex, w') \<Rightarrow> (Abort500 ex, w')
     | Inr (cpt, w') \<Rightarrow>
        (Redirect ''liste_engagements'', flash_msg (Notifications_envoyees cpt) Info w'))"

section \<open>The periodic reminder\<close>

text \<open>
  Modelled from the spec: the periodic job \<^verbatim>\<open>tasks.notifier_engagements_proches\<close> is
  not among the sources; \<^verbatim>\<open>app.py\<close> only registers and calls it. The spec: on each
  tick the scheduler takes "all Commitments where status = OPEN"; "a Commitment is a
  candidate for an automatic reminder only if it has not already received a SENT or
  FAILED NotificationRecord since the start of the current period"; "if the Member has
  no messaging credential or no destination identifier, the outcome is
  SKIPPED_NO_CREDENTIAL and no gateway call occurs. Otherwise call the Gateway [...]
  Gateway success: SENT; Gateway failure: FAILED. Every outcome, including skip, is
  appended as a NotificationRecord"; "internal errors per-Commitment are caught and
  recorded as FAILED". The proximity of the due date is a parameter, as the spec leaves
  it. SENT is the status string the manual trigger stores.
\<close>

definition echec :: string where
  "echec = ''FAILED''"

definition ignoree :: string where
  "ignoree = ''SKIPPED_NO_CREDENTIAL''"

fun date_le :: "date \<Rightarrow> date \<Rightarrow> bool" where
  "date_le (Date y m d) (Date y' m' d') =
     (y < y' \<or> (y = y' \<and> (m < m' \<or> (m = m' \<and> d \<le> d'))))"

fun datetime_le :: "datetime \<Rightarrow> datetime \<Rightarrow> bool" where
  "datetime_le (Datetime d s) (Datetime d' s') = (if d = d' then s \<le> s' else date_le d d')"

definition deja_notifie :: "datetime \<Rightarrow> tables \<Rightarrow> engagement \<Rightarrow> bool" where
  "deja_notifie debut t e =
     list_ex (\<lambda>n. n_engagement_id n = e_id e \<and> (n_statut n = envoyee \<or> n_statut n = echec)
                 \<and> datetime_le debut (date_envoi n)) (notifications t)"

definition candidats :: "datetime \<Rightarrow> (engagement \<Rightarrow> bool) \<Rightarrow> tables \<Rightarrow> engagement list" where
  "candidats debut proche t =
     filter (\<lambda>e. e_statut e = en_cours \<and> proche e \<and> \<not> deja_notifie debut t e) (engagements t)"

definition enregistrer :: "env \<Rightarrow> engagement \<Rightarrow> message \<Rightarrow> string \<Rightarrow> world \<Rightarrow> world" where
  "enregistrer env e msg st w =
     commit (add_notification
       \<lparr>n_id = nouvel_id (map n_id (notifications (session w))), n_membre_id = e_membre_id e,
        n_engagement_id = e_id e, n_message = msg, n_statut = st, date_envoi = utcnow env\<rparr> w)"

definition rappel_auto :: "env \<Rightarrow> engagement \<Rightarrow> world \<Rightarrow> world" where
  "rappel_auto env e w =
    (case membre_de (session w) e of
       None \<Rightarrow>
         enregistrer env e
           (Msg_rappel [] (montant_total e) (date_limite e) (total_paye (session w) e)
              (montant_restant (session w) e)) echec w
     | Some m \<Rightarrow>
        (let msg = rappel_manuel (session w) e m
         in if coordonnees_completes m
            then (let w1 = w\<lparr>outbox := outbox w @ [(telephone m, apikey_callmebot m, msg)]\<rparr>
                  in (case gateway env (length (outbox w)) (telephone m) (apikey_callmebot m) msg of
                        Returned True \<Rightarrow> enregistrer env e msg envoyee w1
                      | Returned False \<Rightarrow> enregistrer env e msg echec w1
                      | Raised \<Rightarrow> enregistrer env e msg echec w1))
            else enregistrer env e msg ignoree w))"

fun tick_boucle :: "env \<Rightarrow> engagement list \<Rightarrow> world \<Rightarrow> world" where
  "tick_boucle env [] w = w"
| "tick_boucle env (e # es) w = tick_boucle env es (rappel_auto env e w)"

definition runPeriodicTick ::
  "env \<Rightarrow> datetime \<Rightarrow> (engagement \<Rightarrow> bool) \<Rightarrow> world \<Rightarrow> world" where
  "runPeriodicTick env debut proche w = tick_boucle env (candidats debut proche (session w)) w"

section \<open>Sample data\<close>

text \<open>
  Python's \<^verbatim>\<open>float\<close> on a plain decimal literal (an optional sign, digits, an optional
  point and digits): the binary64 number nearest to its value.
\<close>

definition digit_val :: "char \<Rightarrow> rat option" where
  "digit_val c = map_of (zip ''0123456789'' [0, 1, 2, 3, 4, 5, 6, 7, 8, 9]) c"

fun digits_val :: "string \<Rightarrow> rat list option" where
  "digits_val [] = Some []"
| "digits_val (c # cs) =
     (case digit_val c of None \<Rightarrow> None
      | Some d \<Rightarrow> (case digits_val cs of None \<Rightarrow> None | Some ds \<Rightarrow> Some (d # ds)))"

definition decimal_val :: "string \<Rightarrow> rat option" where
  "decimal_val s =
     (let ip = takeWhile (\<lambda>c. c \<noteq> CHR ''.'') s;
          fp = drop 1 (dropWhile (\<lambda>c. c \<noteq> CHR ''.'') s)
      in if ip = [] \<and> fp = [] then None
         else (case (digits_val ip, digits_val fp) of
                 (Some a, Some b) \<Rightarrow>
                   Some (foldl (\<lambda>acc d. 10 * acc + d) 0 a + foldr (\<lambda>d acc. (d + acc) / 10) b 0)
               | _ \<Rightarrow> None))"

definition float_of_decimal :: "string \<Rightarrow> pyfloat option" where
  "float_of_decimal s =
     (case s of
        CHR ''-'' # r \<Rightarrow> map_option (\<lambda>q. round64 (- q)) (decimal_val r)
      | _ \<Rightarrow> map_option round64 (decimal_val s))"

text \<open>A calendar that knows two dates, and a gateway that delivers every message.\<close>

definition strptime_test :: "string \<Rightarrow> date option" where
  "strptime_test s = (if s = ''2025-06-30'' then Some (Date 2025 6 30)
                      else if s = ''2025-03-02'' then Some (Date 2025 3 2) else None)"

definition env_test :: env where
  "env_test = \<lparr>float_of = float_of_decimal, strptime = strptime_test,
                utcnow = Datetime (Date 2025 3 1) 36000,
                gateway = (\<lambda>n tel key msg. Returned True)\<rparr>"

text \<open>
  Three members: one with a card, a phone and a key; one without a key; one with a key
  and no card. Each has one open pledge of 100.
\<close>

definition membre_complet :: membre where
  "membre_complet = \<lparr>m_id = 1, code_membre = ''CBCA-VUL-0001'',
     telephone = Some ''+243970000001'', apikey_callmebot = Some ''APIKEY0001'',
     cartebapteme = Some \<lparr>c_nom = Some ''Kavira Marie''\<rparr>\<rparr>"

definition membre_sans_cle :: membre where
  "membre_sans_cle = \<lparr>m_id = 2, code_membre = ''CBCA-VUL-0002'',
     telephone = Some ''+243970000002'', apikey_callmebot = None,
     cartebapteme = Some \<lparr>c_nom = Some ''Kasereka Jean''\<rparr>\<rparr>"

definition membre_sans_carte :: membre where
  "membre_sans_carte = \<lparr>m_id = 3, code_membre = ''CBCA-VUL-0003'',
     telephone = Some ''+243970000003'', apikey_callmebot = Some ''APIKEY0003'',
     cartebapteme = None\<rparr>"

definition engagement_test :: "nat \<Rightarrow> engagement" where
  "engagement_test i = \<lparr>e_id = i, e_membre_id = i, montant_total = Fin 100,
     date_limite = Date 2025 6 30, description = ''Engagement de test'', e_statut = en_cours\<rparr>"

definition tables_deux :: tables where
  "tables_deux = \<lparr>membres = [membre_complet, membre_sans_cle, membre_sans_carte],
     engagements = [engagement_test 1, engagement_test 2],
     paiements = [], notifications = []\<rparr>"

text \<open>A gateway that reports a failure for every message.\<close>

definition env_refus :: env where
  "env_refus = \<lparr>float_of = float_of_decimal, strptime = strptime_test,
                utcnow = Datetime (Date 2025 3 1) 36000,
                gateway = (\<lambda>n tel key msg. Returned False)\<rparr>"

definition tables_test :: tables where
  "tables_test = \<lparr>membres = [membre_complet, membre_sans_cle, membre_sans_carte],
     engagements = [engagement_test 1, engagement_test 2, engagement_test 3],
     paiements = [], notifications = []\<rparr>"

text \<open>
  A pledge of 0.80 for the first member, then payments of 0.10 and of 0.70 on it, each
  made by a request to the handler; the pledge as it is stored.
\<close>

definition engagement_dixiemes :: engagement_form where
  "engagement_dixiemes = \<lparr>ef_membre_id = Some 1, ef_montant = Some ''0.80'',
     ef_date_limite = Some ''2025-06-30'', ef_description = None\<rparr>"

definition paiement_dixiemes :: "string \<Rightarrow> paiement_form" where
  "paiement_dixiemes s = \<lparr>pf_engagement_id = Some 4, pf_montant = Some s,
     pf_date_paiement = Some ''2025-03-02''\<rparr>"

definition apres_engagement :: tables where
  "apres_engagement = committed (snd (ajouter_engagement env_test POST engagement_dixiemes
     (nouvelle_requete tables_test)))"

definition apres_paiement_1 :: tables where
  "apres_paiement_1 = committed (snd (ajouter_paiement env_test POST (paiement_dixiemes ''0.10'')
     (nouvelle_requete apres_engagement)))"

definition apres_paiement_2 :: tables where
  "apres_paiement_2 = committed (snd (ajouter_paiement env_test POST (paiement_dixiemes ''0.70'')
     (nouvelle_requete apres_paiement_1)))"

definition engagement_4 :: engagement where
  "engagement_4 = \<lparr>e_id = 4, e_membre_id = 1,
     montant_total = Fin (3602879701896397 / 4503599627370496),
     date_limite = Date 2025 6 30, description = [], e_statut = en_cours\<rparr>"

section \<open>Recording a payment\<close>


lemma lire_montant_Inr:
  "lire_montant env s = Inr a \<longleftrightarrow> (py_float env s = Inr a \<and> \<not> fle a (Fin 0))"
  by (auto simp add: lire_montant_def split: sum.splits)

lemma session_nouvelle_requete: "session (nouvelle_requete t) = t"
  by (simp add: nouvelle_requete_def)

lemma committed_nouvelle_requete: "committed (nouvelle_requete t) = t"
  by (simp add: nouvelle_requete_def)



text \<open>Once the pledge is found and the amount accepted, the payment is committed,
  whatever happens afterwards.\<close>

lemma ajouter_paiement_valide:
  assumes "query_get e_id (engagements (session w)) (pf_engagement_id f) = Some e"
    and "lire_montant env (pf_montant f) = Inr a"
  shows "committed (snd (ajouter_paiement env POST f w)) =
         (session w)\<lparr>paiements := paiements (session w) @
           [nouveau_paiement w (e_id e) a (lire_date_paiement env (pf_date_paiement f))]\<rparr>"
  using assms
  by (auto simp add: ajouter_paiement_def ajouter_paiement_essai_def Let_def commit_def
      add_paiement_def rollback_def flash_msg_def envoyer_whatsapp_def
      split: option.splits sum.splits gw_result.splits if_splits prod.splits)

lemma float_of_decimal_moins_5: "float_of_decimal ''-5'' = Some (Fin (- 5))"
  by code_simp

lemma float_of_decimal_100: "float_of_decimal ''100'' = Some (Fin 100)"
  by code_simp

lemma sample_float_moins_5: "py_float env_test (Some ''-5'') = Inr (Fin (- 5))"
  by (simp add: py_float_def env_test_def float_of_decimal_moins_5)

lemma sample_float_100: "py_float env_test (Some ''100'') = Inr (Fin 100)"
  by (simp add: py_float_def env_test_def float_of_decimal_100)


lemma sample_date_2_mars: "py_strptime env_test (Some ''2025-03-02'') = Inr (Date 2025 3 2)"
  by (simp add: py_strptime_def env_test_def strptime_test_def)

lemma sample_engagement_1:
  "query_get e_id (engagements tables_test) (Some 1) = Some (engagement_test 1)"
  by (simp add: query_get_def tables_test_def engagement_test_def)





section \<open>A payment whose receipt cannot be built\<close>




section \<open>Editing a payment\<close>

lemma modifier_paiement_refus:
  assumes "(\<exists>x. py_float env (pm_montant f) = Inl x)
       \<or> (\<exists>a. py_float env (pm_montant f) = Inr a \<and> fle a (Fin 0))
       \<or> (\<exists>x. py_strptime env (pm_date_paiement f) = Inl x)"
  shows "committed (snd (modifier_paiement env i f w)) = committed w"
    and "session w = committed w \<Longrightarrow> session (snd (modifier_paiement env i f w)) = committed w"
    and "query_get p_id (paiements (session w)) (Some i) \<noteq> None \<Longrightarrow>
         fst (modifier_paiement env i f w) = Redirect ''liste_paiements''"
  using assms
  by (auto simp add: modifier_paiement_def flash_msg_def rollback_def
      split: option.splits sum.splits)

lemma modifier_paiement_refus_flash:
  assumes "(\<exists>x. py_float env (pm_montant f) = Inl x)
       \<or> (\<exists>a. py_float env (pm_montant f) = Inr a \<and> fle a (Fin 0))
       \<or> (\<exists>x. py_strptime env (pm_date_paiement f) = Inl x)"
    and "query_get p_id (paiements (session w)) (Some i) = Some p"
  shows "\<exists>m c. flashes (snd (modifier_paiement env i f w)) = flashes w @ [(m, c)]
           \<and> m \<noteq> Paiement_modifie \<and> c \<noteq> Success"
  using assms
  by (auto simp add: modifier_paiement_def flash_msg_def rollback_def
      split: option.splits sum.splits)

text \<open>
  C10. Editing a payment (\<^verbatim>\<open>modifier_paiement\<close>) changes nothing when it refuses
  the request: when the new amount is absent or is no number (\<^verbatim>\<open>float\<close> raises), or
  is at most 0, or the new date cannot be parsed, the handler redirects to the list with
  a message that is not the success message, nothing is committed, and the session still
  holds the payment as it was: neither the date nor the amount was assigned.
\<close>

theorem modifier_paiement_atomic:
  assumes "query_get p_id (paiements t) (Some i) = Some p"
    and "(\<exists>x. py_float env (pm_montant f) = Inl x)
       \<or> (\<exists>a. py_float env (pm_montant f) = Inr a \<and> fle a (Fin 0))
       \<or> (\<exists>x. py_strptime env (pm_date_paiement f) = Inl x)"
  shows "fst (modifier_paiement env i f (nouvelle_requete t)) = Redirect ''liste_paiements''
       \<and> committed (snd (modifier_paiement env i f (nouvelle_requete t))) = t
       \<and> session (snd (modifier_paiement env i f (nouvelle_requete t))) = t
       \<and> query_get p_id (paiements (committed (snd (modifier_paiement env i f (nouvelle_requete t)))))
            (Some i) = Some p
       \<and> (\<exists>m c. flashes (snd (modifier_paiement env i f (nouvelle_requete t))) = [(m, c)]
              \<and> m \<noteq> Paiement_modifie \<and> c \<noteq> Success)"
proof -
  let ?w = "nouvelle_requete t"
  have q: "query_get p_id (paiements (session ?w)) (Some i) = Some p"
    using assms(1) by (simp add: session_nouvelle_requete)
  have c: "committed (snd (modifier_paiement env i f ?w)) = t"
    using modifier_paiement_refus(1) [OF assms(2), of i ?w]
    by (simp add: committed_nouvelle_requete)
  have s: "session (snd (modifier_paiement env i f ?w)) = t"
    using modifier_paiement_refus(2) [OF assms(2), of ?w i]
    by (simp add: committed_nouvelle_requete session_nouvelle_requete)
  have r: "fst (modifier_paiement env i f ?w) = Redirect ''liste_paiements''"
    using modifier_paiement_refus(3) [OF assms(2), of ?w i] q by simp
  have fl: "\<exists>m c. flashes (snd (modifier_paiement env i f ?w)) = [(m, c)]
              \<and> m \<noteq> Paiement_modifie \<and> c \<noteq> Success"
    using modifier_paiement_refus_flash [OF assms(2) q]
    by (simp add: nouvelle_requete_def)
  show ?thesis using c s r fl assms(1) by simp
qed

theorem modifier_paiement_atomic_witness:
  "committed (snd (modifier_paiement env_test 1
       \<lparr>pm_montant = Some ''-5'', pm_date_paiement = Some ''2025-03-02''\<rparr>
       (nouvelle_requete (tables_test\<lparr>paiements :=
          [\<lparr>p_id = 1, p_engagement_id = 1, montant = Fin 100,
            date_paiement = Date 2025 6 30\<rparr>]\<rparr>)))) =
     tables_test\<lparr>paiements :=
          [\<lparr>p_id = 1, p_engagement_id = 1, montant = Fin 100,
            date_paiement = Date 2025 6 30\<rparr>]\<rparr>"
proof -
  let ?p = "\<lparr>p_id = 1, p_engagement_id = 1, montant = Fin 100, date_paiement = Date 2025 6 30\<rparr>"
  let ?t = "tables_test\<lparr>paiements := [?p]\<rparr>"
  let ?f = "\<lparr>pm_montant = Some ''-5'', pm_date_paiement = Some ''2025-03-02''\<rparr>"
  have h1: "query_get p_id (paiements ?t) (Some 1) = Some ?p"
    by (simp add: query_get_def)
  have h2: "(\<exists>x. py_float env_test (pm_montant ?f) = Inl x)
       \<or> (\<exists>a. py_float env_test (pm_montant ?f) = Inr a \<and> fle a (Fin 0))
       \<or> (\<exists>x. py_strptime env_test (pm_date_paiement ?f) = Inl x)"
    by (simp add: sample_float_moins_5)
  from modifier_paiement_atomic [OF h1 h2] show ?thesis by blast
qed

section \<open>Creating a pledge\<close>


lemma ajouter_engagement_valide:
  assumes "query_get m_id (membres (session w)) (ef_membre_id f) = Some m"
    and "lire_montant env (ef_montant f) = Inr a"
    and "py_strptime env (ef_date_limite f) = Inr d"
  shows "committed (snd (ajouter_engagement env POST f w)) =
         (session w)\<lparr>engagements := engagements (session w) @
           [nouvel_engagement w (m_id m) a d (lire_description (ef_description f))]\<rparr>"
  using assms
  by (auto simp add: ajouter_engagement_def ajouter_engagement_essai_def Let_def commit_def
      add_engagement_def rollback_def flash_msg_def envoyer_whatsapp_def
      split: option.splits sum.splits gw_result.splits if_splits prod.splits)






lemma sample_date_30_juin: "py_strptime env_test (Some ''2025-06-30'') = Inr (Date 2025 6 30)"
  by (simp add: py_strptime_def env_test_def strptime_test_def)

lemma sample_membre_par_cle:
  "query_get m_id (membres tables_test) (Some 1) = Some membre_complet"
  by (simp add: query_get_def tables_test_def membre_complet_def)



section \<open>Payments and the status of a pledge\<close>

lemma engagements_maj_paiement:
  "engagements (session (maj_paiement i g w)) = engagements (session w)"
  by (simp add: maj_paiement_def)

lemma ajouter_paiement_engagements:
  "engagements (committed (snd (ajouter_paiement env meth f w))) = engagements (committed w)
   \<or> engagements (committed (snd (ajouter_paiement env meth f w))) = engagements (session w)"
  by (auto simp add: ajouter_paiement_def ajouter_paiement_essai_def Let_def commit_def
      add_paiement_def rollback_def flash_msg_def envoyer_whatsapp_def
      split: methode.splits option.splits sum.splits gw_result.splits if_splits prod.splits)

lemma modifier_paiement_engagements:
  "engagements (committed (snd (modifier_paiement env i f w))) = engagements (committed w)
   \<or> engagements (committed (snd (modifier_paiement env i f w))) = engagements (session w)"
  by (auto simp add: modifier_paiement_def Let_def commit_def maj_paiement_def
      rollback_def flash_msg_def
      split: option.splits sum.splits if_splits)

text \<open>
  C1, as the code has it. Recording a payment (\<^verbatim>\<open>ajouter_paiement\<close>) and editing one
  (\<^verbatim>\<open>modifier_paiement\<close>) never change a pledge: after the request every pledge
  has the status it had before, whatever its payments sum to. Neither handler assigns
  \<^verbatim>\<open>statut\<close>.
\<close>

theorem payment_mutations_keep_status:
  "engagements (committed (snd (ajouter_paiement env meth f (nouvelle_requete t)))) = engagements t
   \<and> engagements (committed (snd (modifier_paiement env i g (nouvelle_requete t)))) = engagements t"
  using ajouter_paiement_engagements [of env meth f "nouvelle_requete t"]
    modifier_paiement_engagements [of env i g "nouvelle_requete t"]
  by (simp add: nouvelle_requete_def)

lemma round64_100: "round64 100 = Fin 100"
  by code_simp

text \<open>
  C1 as stated fails: a payment of 100 on the open pledge of 100 is committed, the
  payments of the pledge then sum to its total, and the pledge still has the open status,
  not the settled one.
\<close>

theorem status_recompute_counterexample:
  "query_get e_id (engagements (committed (snd (ajouter_paiement env_test POST
       \<lparr>pf_engagement_id = Some 1, pf_montant = Some ''100'', pf_date_paiement = Some ''2025-03-02''\<rparr>
       (nouvelle_requete tables_test))))) (Some 1) = Some (engagement_test 1)
   \<and> total_paye (committed (snd (ajouter_paiement env_test POST
       \<lparr>pf_engagement_id = Some 1, pf_montant = Some ''100'', pf_date_paiement = Some ''2025-03-02''\<rparr>
       (nouvelle_requete tables_test)))) (engagement_test 1) = Fin 100
   \<and> montant_total (engagement_test 1) = Fin 100
   \<and> fle (montant_total (engagement_test 1)) (total_paye (committed (snd (ajouter_paiement env_test POST
       \<lparr>pf_engagement_id = Some 1, pf_montant = Some ''100'', pf_date_paiement = Some ''2025-03-02''\<rparr>
       (nouvelle_requete tables_test)))) (engagement_test 1))
   \<and> e_statut (engagement_test 1) = en_cours
   \<and> e_statut (engagement_test 1) \<noteq> paye"
proof -
  let ?f = "\<lparr>pf_engagement_id = Some 1, pf_montant = Some ''100'',
             pf_date_paiement = Some ''2025-03-02''\<rparr>"
  let ?w = "nouvelle_requete tables_test"
  have h1: "query_get e_id (engagements (session ?w)) (pf_engagement_id ?f)
            = Some (engagement_test 1)"
    using sample_engagement_1 by (simp add: session_nouvelle_requete)
  have h2: "lire_montant env_test (pf_montant ?f) = Inr (Fin 100)"
    using sample_float_100 by (simp add: lire_montant_Inr)
  have c: "committed (snd (ajouter_paiement env_test POST ?f ?w)) =
      tables_test\<lparr>paiements := [\<lparr>p_id = 1, p_engagement_id = 1, montant = Fin 100,
         date_paiement = Date 2025 3 2\<rparr>]\<rparr>"
    using ajouter_paiement_valide [OF h1 h2] sample_date_2_mars
    by (simp add: session_nouvelle_requete nouveau_paiement_def lire_date_paiement_def
        tables_test_def nouvel_id_def engagement_test_def)
  have tp: "total_paye (tables_test\<lparr>paiements := [\<lparr>p_id = 1, p_engagement_id = 1,
         montant = Fin 100, date_paiement = Date 2025 3 2\<rparr>]\<rparr>) (engagement_test 1) = Fin 100"
    by (simp add: total_paye_def paiements_de_def engagement_test_def round64_100)
  have q: "query_get e_id (engagements (tables_test\<lparr>paiements := [\<lparr>p_id = 1,
         p_engagement_id = 1, montant = Fin 100, date_paiement = Date 2025 3 2\<rparr>]\<rparr>)) (Some 1)
       = Some (engagement_test 1)"
    using sample_engagement_1 by simp
  have s: "e_statut (engagement_test 1) = en_cours" "en_cours \<noteq> paye"
    "montant_total (engagement_test 1) = Fin 100"
    by (simp_all add: engagement_test_def en_cours_def paye_def)
  show ?thesis
    unfolding c tp using q s by simp
qed

section \<open>The manual reminder\<close>

lemma notifier_membre_incomplet:
  assumes "query_get e_id (engagements (session w)) (Some i) = Some e"
    and "membre_de (session w) e = None
         \<or> (\<exists>m. membre_de (session w) e = Some m
                \<and> (\<not> truthy (apikey_callmebot m) \<or> \<not> truthy (telephone m)))"
  shows "notifier_membre_engagement env i w =
          (Redirect ''liste_engagements'', flash_msg Notification_impossible Warning w)"
  using assms
  by (auto simp add: notifier_membre_engagement_def coordonnees_completes_def)

lemma notifier_membre_envoi:
  assumes "query_get e_id (engagements (session w)) (Some i) = Some e"
    and "membre_de (session w) e = Some m"
    and "truthy (apikey_callmebot m)" and "truthy (telephone m)"
    and "gateway env (length (outbox w)) (telephone m) (apikey_callmebot m)
           (rappel_manuel (session w) e m) = Returned b"
  shows "notifier_membre_engagement env i w =
          (Redirect ''liste_engagements'',
           flash_msg Notification_envoyee Success
            (commit (add_notification
               \<lparr>n_id = nouvel_id (map n_id (notifications (session w))),
                n_membre_id = m_id m, n_engagement_id = e_id e,
                n_message = rappel_manuel (session w) e m, n_statut = envoyee,
                date_envoi = utcnow env\<rparr>
               (w\<lparr>outbox := outbox w @ [(telephone m, apikey_callmebot m,
                                           rappel_manuel (session w) e m)]\<rparr>))))"
  using assms
  by (simp add: notifier_membre_engagement_def coordonnees_completes_def Let_def
      envoyer_whatsapp_def rappel_manuel_def add_notification_def)

text \<open>A gateway call that raises ends the request: nothing catches it.\<close>

lemma notifier_membre_leve:
  assumes "query_get e_id (engagements (session w)) (Some i) = Some e"
    and "membre_de (session w) e = Some m"
    and "truthy (apikey_callmebot m)" and "truthy (telephone m)"
    and "gateway env (length (outbox w)) (telephone m) (apikey_callmebot m)
           (rappel_manuel (session w) e m) = Raised"
  shows "notifier_membre_engagement env i w =
          (Abort500 GatewayError,
           w\<lparr>outbox := outbox w @ [(telephone m, apikey_callmebot m,
                                     rappel_manuel (session w) e m)]\<rparr>)"
  using assms
  by (simp add: notifier_membre_engagement_def coordonnees_completes_def Let_def
      envoyer_whatsapp_def rappel_manuel_def)

text \<open>
  C3, as the code has it. The manual trigger (\<^verbatim>\<open>notifier_membre_engagement\<close>) on an
  existing pledge: when the member is missing or has no key or no phone, the gateway is
  not called, nothing is written to the database and the caller gets the warning. When
  the member has both and the gateway call returns, with success or with failure, one
  notification is appended, its status the sent one.
\<close>

theorem manual_reminder_records:
  assumes "query_get e_id (engagements t) (Some i) = Some e"
  shows "((membre_de t e = None
            \<or> (\<exists>m. membre_de t e = Some m
                   \<and> (\<not> truthy (apikey_callmebot m) \<or> \<not> truthy (telephone m))))
          \<longrightarrow> outbox (snd (notifier_membre_engagement env i (nouvelle_requete t))) = []
              \<and> committed (snd (notifier_membre_engagement env i (nouvelle_requete t))) = t
              \<and> flashes (snd (notifier_membre_engagement env i (nouvelle_requete t))) =
                   [(Notification_impossible, Warning)])
       \<and> (\<forall>m b. membre_de t e = Some m \<and> truthy (apikey_callmebot m) \<and> truthy (telephone m)
              \<and> gateway env 0 (telephone m) (apikey_callmebot m) (rappel_manuel t e m) = Returned b
          \<longrightarrow> outbox (snd (notifier_membre_engagement env i (nouvelle_requete t))) =
                 [(telephone m, apikey_callmebot m, rappel_manuel t e m)]
              \<and> committed (snd (notifier_membre_engagement env i (nouvelle_requete t))) =
                 t\<lparr>notifications := notifications t @
                    [\<lparr>n_id = nouvel_id (map n_id (notifications t)), n_membre_id = m_id m,
                      n_engagement_id = e_id e, n_message = rappel_manuel t e m,
                      n_statut = envoyee, date_envoi = utcnow env\<rparr>]\<rparr>)"
proof (intro conjI impI allI)
  let ?w = "nouvelle_requete t"
  have q: "query_get e_id (engagements (session ?w)) (Some i) = Some e"
    using assms by (simp add: session_nouvelle_requete)
  {
    assume "membre_de t e = None
            \<or> (\<exists>m. membre_de t e = Some m
                   \<and> (\<not> truthy (apikey_callmebot m) \<or> \<not> truthy (telephone m)))"
    then have "notifier_membre_engagement env i ?w =
          (Redirect ''liste_engagements'', flash_msg Notification_impossible Warning ?w)"
      using notifier_membre_incomplet [OF q, of env] by (simp add: session_nouvelle_requete)
    then show "outbox (snd (notifier_membre_engagement env i ?w)) = []"
      and "committed (snd (notifier_membre_engagement env i ?w)) = t"
      and "flashes (snd (notifier_membre_engagement env i ?w)) = [(Notification_impossible, Warning)]"
      by (simp_all add: flash_msg_def nouvelle_requete_def)
  }
  {
    fix m b
    assume h: "membre_de t e = Some m \<and> truthy (apikey_callmebot m) \<and> truthy (telephone m)
              \<and> gateway env 0 (telephone m) (apikey_callmebot m) (rappel_manuel t e m) = Returned b"
    then have "notifier_membre_engagement env i ?w =
          (Redirect ''liste_engagements'',
           flash_msg Notification_envoyee Success
            (commit (add_notification
               \<lparr>n_id = nouvel_id (map n_id (notifications (session ?w))),
                n_membre_id = m_id m, n_engagement_id = e_id e,
                n_message = rappel_manuel (session ?w) e m, n_statut = envoyee,
                date_envoi = utcnow env\<rparr>
               (?w\<lparr>outbox := outbox ?w @ [(telephone m, apikey_callmebot m,
                                           rappel_manuel (session ?w) e m)]\<rparr>))))"
      using notifier_membre_envoi [OF q, of m env b]
      by (simp add: nouvelle_requete_def)
    then show "outbox (snd (notifier_membre_engagement env i ?w)) =
                 [(telephone m, apikey_callmebot m, rappel_manuel t e m)]"
      and "committed (snd (notifier_membre_engagement env i ?w)) =
                 t\<lparr>notifications := notifications t @
                    [\<lparr>n_id = nouvel_id (map n_id (notifications t)), n_membre_id = m_id m,
                      n_engagement_id = e_id e, n_message = rappel_manuel t e m,
                      n_statut = envoyee, date_envoi = utcnow env\<rparr>]\<rparr>"
      by (simp_all add: flash_msg_def nouvelle_requete_def commit_def add_notification_def)
  }
qed

lemma sample_membre_1: "membre_de tables_test (engagement_test 1) = Some membre_complet"
  by (simp add: membre_de_def tables_test_def engagement_test_def membre_complet_def)

lemma sample_membre_2: "membre_de tables_test (engagement_test 2) = Some membre_sans_cle"
  by (simp add: membre_de_def tables_test_def engagement_test_def membre_complet_def
      membre_sans_cle_def)

lemma sample_engagement_2:
  "query_get e_id (engagements tables_test) (Some 2) = Some (engagement_test 2)"
  by (simp add: query_get_def tables_test_def engagement_test_def)

theorem manual_reminder_records_witness:
  "outbox (snd (notifier_membre_engagement env_test 2 (nouvelle_requete tables_test))) = []
   \<and> committed (snd (notifier_membre_engagement env_test 2 (nouvelle_requete tables_test)))
       = tables_test
   \<and> committed (snd (notifier_membre_engagement env_test 1 (nouvelle_requete tables_test))) =
       tables_test\<lparr>notifications :=
         [\<lparr>n_id = 1, n_membre_id = 1, n_engagement_id = 1,
           n_message = rappel_manuel tables_test (engagement_test 1) membre_complet,
           n_statut = envoyee, date_envoi = Datetime (Date 2025 3 1) 36000\<rparr>]\<rparr>"
proof (intro conjI)
  have k: "membre_de tables_test (engagement_test 2) = None
            \<or> (\<exists>m. membre_de tables_test (engagement_test 2) = Some m
                   \<and> (\<not> truthy (apikey_callmebot m) \<or> \<not> truthy (telephone m)))"
    using sample_membre_2 by (simp add: membre_sans_cle_def)
  from manual_reminder_records [OF sample_engagement_2, of env_test] k
  show "outbox (snd (notifier_membre_engagement env_test 2 (nouvelle_requete tables_test))) = []"
    and "committed (snd (notifier_membre_engagement env_test 2 (nouvelle_requete tables_test)))
       = tables_test"
    by blast+
  have g: "membre_de tables_test (engagement_test 1) = Some membre_complet
      \<and> truthy (apikey_callmebot membre_complet) \<and> truthy (telephone membre_complet)
      \<and> gateway env_test 0 (telephone membre_complet) (apikey_callmebot membre_complet)
           (rappel_manuel tables_test (engagement_test 1) membre_complet) = Returned True"
    using sample_membre_1 by (simp add: membre_complet_def env_test_def)
  from manual_reminder_records [OF sample_engagement_1, of env_test] g
  have "committed (snd (notifier_membre_engagement env_test 1 (nouvelle_requete tables_test))) =
      tables_test\<lparr>notifications := notifications tables_test @
         [\<lparr>n_id = nouvel_id (map n_id (notifications tables_test)),
           n_membre_id = m_id membre_complet, n_engagement_id = e_id (engagement_test 1),
           n_message = rappel_manuel tables_test (engagement_test 1) membre_complet,
           n_statut = envoyee, date_envoi = utcnow env_test\<rparr>]\<rparr>"
    by blast
  moreover have "notifications tables_test = []" "m_id membre_complet = 1"
    "e_id (engagement_test 1) = 1" "utcnow env_test = Datetime (Date 2025 3 1) 36000"
    by (simp_all add: tables_test_def membre_complet_def engagement_test_def env_test_def)
  ultimately show "committed (snd (notifier_membre_engagement env_test 1
        (nouvelle_requete tables_test))) =
       tables_test\<lparr>notifications :=
         [\<lparr>n_id = 1, n_membre_id = 1, n_engagement_id = 1,
           n_message = rappel_manuel tables_test (engagement_test 1) membre_complet,
           n_statut = envoyee, date_envoi = Datetime (Date 2025 3 1) 36000\<rparr>]\<rparr>"
    by (simp add: nouvel_id_def)
qed

text \<open>
  C3 as stated fails: the pledge of the member without a key is notified, and the
  table of notifications is as empty after the request as before: no record of a skipped
  attempt is appended.
\<close>

theorem skipped_reminder_counterexample:
  "query_get e_id (engagements tables_test) (Some 2) = Some (engagement_test 2)
   \<and> membre_de tables_test (engagement_test 2) = Some membre_sans_cle
   \<and> apikey_callmebot membre_sans_cle = None
   \<and> notifications tables_test = []
   \<and> notifications (committed (snd (notifier_membre_engagement env_test 2
        (nouvelle_requete tables_test)))) = []"
proof -
  have q: "query_get e_id (engagements (session (nouvelle_requete tables_test))) (Some 2)
       = Some (engagement_test 2)"
    using sample_engagement_2 by (simp add: session_nouvelle_requete)
  have k: "membre_de (session (nouvelle_requete tables_test)) (engagement_test 2) = None
            \<or> (\<exists>m. membre_de (session (nouvelle_requete tables_test)) (engagement_test 2) = Some m
                   \<and> (\<not> truthy (apikey_callmebot m) \<or> \<not> truthy (telephone m)))"
    using sample_membre_2 by (simp add: membre_sans_cle_def session_nouvelle_requete)
  have n: "notifications tables_test = []" by (simp add: tables_test_def)
  have a: "apikey_callmebot membre_sans_cle = None" by (simp add: membre_sans_cle_def)
  have "notifications (committed (snd (notifier_membre_engagement env_test 2
        (nouvelle_requete tables_test)))) = notifications tables_test"
    using notifier_membre_incomplet [OF q k, of env_test]
    by (simp add: flash_msg_def nouvelle_requete_def)
  with n a sample_engagement_2 sample_membre_2 show ?thesis by simp
qed


section \<open>The bulk reminder\<close>

lemma length_concat_singletons:
  "\<forall>x \<in> set xs. length (f x) = 1 \<Longrightarrow> length (concat (map f xs)) = length xs"
  by (induction xs) simp_all

lemma notifier_boucle_sans_exception:
  assumes "\<forall>n tel key msg. gateway env n tel key msg \<noteq> Raised"
    and "\<forall>e \<in> set es. \<forall>m. membre_de (session w) e = Some m \<and> coordonnees_completes m
            \<longrightarrow> cartebapteme m \<noteq> None"
  shows "notifier_boucle env es cpt w =
     Inr (cpt + length (filter (notifiable (session w)) es),
          w\<lparr>outbox := outbox w @ concat (map (appel_solde (session w))
                                           (filter (notifiable (session w)) es))\<rparr>)"
  using assms(2)
proof (induction es arbitrary: cpt w)
  case Nil
  then show ?case by simp
next
  case (Cons e es)
  show ?case
  proof (cases "membre_de (session w) e")
    case None
    then have "\<not> notifiable (session w) e" by (simp add: notifiable_def)
    with None Cons show ?thesis by simp
  next
    case (Some m)
    show ?thesis
    proof (cases "coordonnees_completes m")
      case False
      with Some have "\<not> notifiable (session w) e" by (simp add: notifiable_def)
      with Some False Cons show ?thesis by simp
    next
      case True
      with Some have n: "notifiable (session w) e" by (simp add: notifiable_def)
      from Cons.prems Some True obtain c where c: "cartebapteme m = Some c" by auto
      let ?call = "(telephone m, apikey_callmebot m,
               Msg_solde (py_or (c_nom c) (code_membre m)) (montant_total e) (date_limite e)
                 (montant_restant (session w) e))"
      let ?w' = "w\<lparr>outbox := outbox w @ [?call]\<rparr>"
      have a: "appel_solde (session w) e = [?call]"
        using Some c by (simp add: appel_solde_def)
      have g: "envoyer_whatsapp env (telephone m) (apikey_callmebot m)
                 (Msg_solde (py_or (c_nom c) (code_membre m)) (montant_total e) (date_limite e)
                 (montant_restant (session w) e)) w = Inr ?w'"
        using assms(1) by (auto simp add: envoyer_whatsapp_def Let_def split: gw_result.splits)
      have s: "session ?w' = session w" by simp
      have "notifier_boucle env (e # es) cpt w = notifier_boucle env es (cpt + 1) ?w'"
        using Some True c g by simp
      also have "\<dots> = Inr (cpt + 1 + length (filter (notifiable (session ?w')) es),
          ?w'\<lparr>outbox := outbox ?w' @ concat (map (appel_solde (session ?w'))
                                           (filter (notifiable (session ?w')) es))\<rparr>)"
        using Cons.prems by (intro Cons.IH) simp
      finally show ?thesis using n a by simp
    qed
  qed
qed

text \<open>The whole request, under the same conditions: the database is not written to.\<close>

lemma notifier_tous_sans_exception:
  assumes "\<forall>n tel key msg. gateway env n tel key msg \<noteq> Raised"
    and "\<forall>e \<in> set (non_payes t). \<forall>m. membre_de t e = Some m \<and> coordonnees_completes m
            \<longrightarrow> cartebapteme m \<noteq> None"
  shows "notifier_tous_membres env (nouvelle_requete t) =
      (Redirect ''liste_engagements'',
       flash_msg (Notifications_envoyees (length (filter (notifiable t) (non_payes t)))) Info
         ((nouvelle_requete t)\<lparr>outbox :=
             concat (map (appel_solde t) (filter (notifiable t) (non_payes t)))\<rparr>))"
proof -
  let ?w = "nouvelle_requete t"
  have b: "notifier_boucle env (non_payes (session ?w)) 0 ?w =
     Inr (0 + length (filter (notifiable (session ?w)) (non_payes (session ?w))),
          ?w\<lparr>outbox := outbox ?w @ concat (map (appel_solde (session ?w))
                     (filter (notifiable (session ?w)) (non_payes (session ?w))))\<rparr>)"
    using assms(2) by (intro notifier_boucle_sans_exception [OF assms(1)])
      (simp add: session_nouvelle_requete)
  then show ?thesis
    by (simp add: notifier_tous_membres_def session_nouvelle_requete nouvelle_requete_def)
qed

lemma appels_notifiables:
  assumes "\<forall>e \<in> set es. \<forall>m. membre_de t e = Some m \<and> coordonnees_completes m
            \<longrightarrow> cartebapteme m \<noteq> None"
  shows "length (concat (map (appel_solde t) (filter (notifiable t) es)))
         = length (filter (notifiable t) es)"
proof -
  have "\<forall>e \<in> set (filter (notifiable t) es). length (appel_solde t e) = 1"
    using assms by (auto simp add: notifiable_def appel_solde_def split: option.splits)
  then show ?thesis by (rule length_concat_singletons)
qed

text \<open>
  C2, as the code has it. The bulk trigger (\<^verbatim>\<open>notifier_tous_membres\<close>), when the
  gateway never raises and every member it writes to has a baptism card: it goes through
  all the pledges that are not settled, calls the gateway once, in order, for each pledge
  whose member has a key and a phone, whatever the gateway returns, and reports the number
  of these calls, which is at most the number of pledges.
\<close>

theorem bulk_reminder_counts_calls:
  assumes "\<forall>n tel key msg. gateway env n tel key msg \<noteq> Raised"
    and "\<forall>e \<in> set (non_payes t). \<forall>m. membre_de t e = Some m \<and> coordonnees_completes m
            \<longrightarrow> cartebapteme m \<noteq> None"
  shows "fst (notifier_tous_membres env (nouvelle_requete t)) = Redirect ''liste_engagements''
       \<and> flashes (snd (notifier_tous_membres env (nouvelle_requete t))) =
           [(Notifications_envoyees (length (filter (notifiable t) (non_payes t))), Info)]
       \<and> outbox (snd (notifier_tous_membres env (nouvelle_requete t))) =
           concat (map (appel_solde t) (filter (notifiable t) (non_payes t)))
       \<and> length (outbox (snd (notifier_tous_membres env (nouvelle_requete t)))) =
           length (filter (notifiable t) (non_payes t))
       \<and> length (filter (notifiable t) (non_payes t)) \<le> length (non_payes t)"
  using notifier_tous_sans_exception [OF assms] appels_notifiables [OF assms(2)]
  by (simp add: flash_msg_def nouvelle_requete_def)

lemma sample_non_payes_deux: "non_payes tables_deux = [engagement_test 1, engagement_test 2]"
  by (simp add: non_payes_def tables_deux_def engagement_test_def en_cours_def paye_def)

lemma sample_deux_cartes:
  "\<forall>e \<in> set (non_payes tables_deux). \<forall>m. membre_de tables_deux e = Some m
      \<and> coordonnees_completes m \<longrightarrow> cartebapteme m \<noteq> None"
  unfolding sample_non_payes_deux
  by (simp add: membre_de_def tables_deux_def engagement_test_def
      membre_complet_def membre_sans_cle_def)

lemma sample_notifiables_deux:
  "filter (notifiable tables_deux) (non_payes tables_deux) = [engagement_test 1]"
  unfolding sample_non_payes_deux
  by (simp add: notifiable_def membre_de_def tables_deux_def
      engagement_test_def membre_complet_def membre_sans_cle_def coordonnees_completes_def)

theorem bulk_reminder_counts_calls_witness:
  "fst (notifier_tous_membres env_refus (nouvelle_requete tables_deux))
     = Redirect ''liste_engagements''
   \<and> flashes (snd (notifier_tous_membres env_refus (nouvelle_requete tables_deux)))
     = [(Notifications_envoyees 1, Info)]
   \<and> length (outbox (snd (notifier_tous_membres env_refus (nouvelle_requete tables_deux)))) = 1"
proof -
  have g: "\<forall>n tel key msg. gateway env_refus n tel key msg \<noteq> Raised"
    by (simp add: env_refus_def)
  note k = bulk_reminder_counts_calls [OF g sample_deux_cartes, unfolded sample_notifiables_deux]
  from k have "fst (notifier_tous_membres env_refus (nouvelle_requete tables_deux))
     = Redirect ''liste_engagements''"
    and "flashes (snd (notifier_tous_membres env_refus (nouvelle_requete tables_deux)))
     = [(Notifications_envoyees (length [engagement_test 1]), Info)]"
    and "length (outbox (snd (notifier_tous_membres env_refus (nouvelle_requete tables_deux))))
     = length [engagement_test 1]"
    by blast+
  then show ?thesis by simp
qed

text \<open>
  C2 as stated fails: with two open pledges, one of a member without a key, the bulk
  trigger appends no notification (not two) and reports one (not two).
\<close>

theorem bulk_reminder_counterexample:
  "length (non_payes tables_deux) = 2
   \<and> notifications tables_deux = []
   \<and> notifications (committed (snd (notifier_tous_membres env_test (nouvelle_requete tables_deux))))
     = []
   \<and> flashes (snd (notifier_tous_membres env_test (nouvelle_requete tables_deux)))
     = [(Notifications_envoyees 1, Info)]"
proof -
  have g: "\<forall>n tel key msg. gateway env_test n tel key msg \<noteq> Raised"
    by (simp add: env_test_def)
  have n: "notifications tables_deux = []" by (simp add: tables_deux_def)
  note r = notifier_tous_sans_exception [OF g sample_deux_cartes,
      unfolded sample_notifiables_deux]
  from r n show ?thesis
    by (simp add: sample_non_payes_deux flash_msg_def nouvelle_requete_def)
qed

section \<open>The amount left to pay\<close>

lemma pow2n_pos: "0 < pow2n n"
proof (induction n rule: pow2n.induct)
  case (1 n)
  show ?case
  proof (cases "n \<le> 0")
    case True
    then show ?thesis by (subst pow2n.simps) simp
  next
    case False
    show ?thesis
    proof (cases "even n")
      case True
      with False "1.IH"(1) have "0 < pow2n (n div 2)" by simp
      with False True show ?thesis by (subst pow2n.simps) (simp add: Let_def)
    next
      case odd: False
      with False "1.IH"(2) have "0 < pow2n (n - 1)" by simp
      with False odd show ?thesis by (subst pow2n.simps) simp
    qed
  qed
qed

lemma pow2_pos: "0 < pow2 e"
  using pow2n_pos by (simp add: pow2_def)

lemma half_even_nonneg: "0 \<le> x \<Longrightarrow> 0 \<le> half_even x"
  by (auto simp add: half_even_def Let_def)

lemma round64_nonpos: "x \<le> 0 \<Longrightarrow> \<not> fgt (round64 x) (Fin 0)"
proof -
  assume x: "x \<le> 0"
  show ?thesis
  proof (cases "x = 0")
    case True
    then show ?thesis by (simp add: round64_def fgt_def)
  next
    case False
    with x have neg: "x < 0" by simp
    define q where "q = pow2 (max (ilog2 \<bar>x\<bar>) (- 1022) - 52)"
    define r where "r = of_int (half_even (\<bar>x\<bar> / q)) * q"
    have "0 < q" unfolding q_def by (rule pow2_pos)
    then have "0 \<le> \<bar>x\<bar> / q" by simp
    then have "0 \<le> half_even (\<bar>x\<bar> / q)" by (rule half_even_nonneg)
    with \<open>0 < q\<close> have "0 \<le> r" unfolding r_def by simp
    have "round64 x = (if pow2 1024 \<le> r then NInf else Fin (- r))"
      using neg False by (simp add: round64_def Let_def q_def r_def)
    with \<open>0 \<le> r\<close> show ?thesis by (simp add: fgt_def)
  qed
qed

lemma fsub_le_not_positive: "fle a b \<Longrightarrow> \<not> fgt (fsub a b) (Fin 0)"
proof (cases a; cases b)
  fix x y
  assume "a = Fin x" "b = Fin y" "fle a b"
  then show ?thesis using round64_nonpos [of "x - y"] by (simp add: fsub_def)
qed (simp_all add: fsub_def fgt_def)

lemma fgt_zero_nonneg: "fgt x (Fin 0) \<Longrightarrow> fle (Fin 0) x"
  by (cases x) (simp_all add: fgt_def)

text \<open>
  C4. The amount left on a pledge is \<^verbatim>\<open>max(0, total - sum of payments)\<close>, in the
  arithmetic of floats: it is never negative, and it is 0 as soon as the payments sum to
  the total or more.
\<close>

theorem amountRemaining_clamped:
  "montant_restant t e =
     (if fgt (fsub (montant_total e) (total_paye t e)) (Fin 0)
      then fsub (montant_total e) (total_paye t e) else Fin 0)
   \<and> fle (Fin 0) (montant_restant t e)
   \<and> (fle (montant_total e) (total_paye t e) \<longrightarrow> montant_restant t e = Fin 0)"
  using fsub_le_not_positive [of "montant_total e" "total_paye t e"]
    fgt_zero_nonneg [of "fsub (montant_total e) (total_paye t e)"]
  by (simp add: montant_restant_def Let_def)

lemma round64_60: "round64 60 = Fin 60" by code_simp
lemma round64_120: "round64 120 = Fin 120" by code_simp

theorem amountRemaining_clamped_witness:
  "total_paye (tables_test\<lparr>paiements :=
       [\<lparr>p_id = 1, p_engagement_id = 1, montant = Fin 60, date_paiement = Date 2025 3 1\<rparr>,
        \<lparr>p_id = 2, p_engagement_id = 1, montant = Fin 60, date_paiement = Date 2025 3 2\<rparr>]\<rparr>)
      (engagement_test 1) = Fin 120
   \<and> montant_total (engagement_test 1) = Fin 100
   \<and> montant_restant (tables_test\<lparr>paiements :=
       [\<lparr>p_id = 1, p_engagement_id = 1, montant = Fin 60, date_paiement = Date 2025 3 1\<rparr>,
        \<lparr>p_id = 2, p_engagement_id = 1, montant = Fin 60, date_paiement = Date 2025 3 2\<rparr>]\<rparr>)
      (engagement_test 1) = Fin 0"
proof -
  let ?t = "tables_test\<lparr>paiements :=
       [\<lparr>p_id = 1, p_engagement_id = 1, montant = Fin 60, date_paiement = Date 2025 3 1\<rparr>,
        \<lparr>p_id = 2, p_engagement_id = 1, montant = Fin 60, date_paiement = Date 2025 3 2\<rparr>]\<rparr>"
  have tp: "total_paye ?t (engagement_test 1) = Fin 120"
    by (simp add: total_paye_def paiements_de_def engagement_test_def round64_60 round64_120)
  have mt: "montant_total (engagement_test 1) = Fin 100"
    by (simp add: engagement_test_def)
  have "fle (montant_total (engagement_test 1)) (total_paye ?t (engagement_test 1))"
    unfolding tp mt by simp
  with amountRemaining_clamped [of ?t "engagement_test 1"]
  have "montant_restant ?t (engagement_test 1) = Fin 0" by blast
  with tp mt show ?thesis by simp
qed

section \<open>Repeated reminders\<close>

lemma rappel_auto_enregistre:
  "\<exists>msg st ob. rappel_auto env e w = enregistrer env e msg st (w\<lparr>outbox := ob\<rparr>)"
proof -
  have same: "w = w\<lparr>outbox := outbox w\<rparr>" by simp
  show ?thesis
  proof (cases "membre_de (session w) e")
    case None
    then have "rappel_auto env e w = enregistrer env e
           (Msg_rappel [] (montant_total e) (date_limite e) (total_paye (session w) e)
              (montant_restant (session w) e)) echec (w\<lparr>outbox := outbox w\<rparr>)"
      by (simp add: rappel_auto_def)
    then show ?thesis by blast
  next
    case (Some m)
    show ?thesis
    proof (cases "coordonnees_completes m")
      case False
      with Some have "rappel_auto env e w =
          enregistrer env e (rappel_manuel (session w) e m) ignoree (w\<lparr>outbox := outbox w\<rparr>)"
        by (simp add: rappel_auto_def Let_def)
      then show ?thesis by blast
    next
      case True
      let ?ob = "outbox w @ [(telephone m, apikey_callmebot m, rappel_manuel (session w) e m)]"
      from Some True have "rappel_auto env e w =
            enregistrer env e (rappel_manuel (session w) e m) envoyee (w\<lparr>outbox := ?ob\<rparr>)
          \<or> rappel_auto env e w =
            enregistrer env e (rappel_manuel (session w) e m) echec (w\<lparr>outbox := ?ob\<rparr>)"
        by (simp add: rappel_auto_def Let_def split: gw_result.splits bool.splits)
      then show ?thesis by blast
    qed
  qed
qed

lemma rappel_auto_effet:
  assumes "committed w = session w"
  shows "\<exists>n. n_engagement_id n = e_id e \<and> date_envoi n = utcnow env
           \<and> session (rappel_auto env e w) =
                (session w)\<lparr>notifications := notifications (session w) @ [n]\<rparr>
           \<and> committed (rappel_auto env e w) = session (rappel_auto env e w)"
proof -
  from rappel_auto_enregistre [of env e w] obtain msg st ob
    where r: "rappel_auto env e w = enregistrer env e msg st (w\<lparr>outbox := ob\<rparr>)" by blast
  let ?n = "\<lparr>n_id = nouvel_id (map n_id (notifications (session w))),
             n_membre_id = e_membre_id e, n_engagement_id = e_id e, n_message = msg,
             n_statut = st, date_envoi = utcnow env\<rparr>"
  have "session (rappel_auto env e w) = (session w)\<lparr>notifications := notifications (session w) @ [?n]\<rparr>"
    and "committed (rappel_auto env e w) = session (rappel_auto env e w)"
    by (simp_all add: r enregistrer_def commit_def add_notification_def)
  then show ?thesis by (intro exI [of _ ?n]) simp
qed

lemma tick_boucle_effet:
  assumes "committed w = session w"
  shows "\<exists>ns. map n_engagement_id ns = map e_id es
           \<and> (\<forall>n \<in> set ns. date_envoi n = utcnow env)
           \<and> session (tick_boucle env es w) =
                (session w)\<lparr>notifications := notifications (session w) @ ns\<rparr>
           \<and> committed (tick_boucle env es w) = session (tick_boucle env es w)"
  using assms
proof (induction es arbitrary: w)
  case Nil
  then show ?case by (intro exI [of _ "[]"]) simp
next
  case (Cons e es)
  from rappel_auto_effet [OF Cons.prems, of e env] obtain n
    where n: "n_engagement_id n = e_id e" "date_envoi n = utcnow env"
      "session (rappel_auto env e w) = (session w)\<lparr>notifications := notifications (session w) @ [n]\<rparr>"
      "committed (rappel_auto env e w) = session (rappel_auto env e w)"
    by blast
  from Cons.IH [OF n(4)] obtain ns
    where ns: "map n_engagement_id ns = map e_id es" "\<forall>n \<in> set ns. date_envoi n = utcnow env"
      "session (tick_boucle env es (rappel_auto env e w)) =
         (session (rappel_auto env e w))\<lparr>notifications :=
            notifications (session (rappel_auto env e w)) @ ns\<rparr>"
      "committed (tick_boucle env es (rappel_auto env e w)) =
         session (tick_boucle env es (rappel_auto env e w))"
    by blast
  show ?case
    using n ns by (intro exI [of _ "n # ns"]) simp
qed

lemma filter_cle_absente:
  "k \<notin> f ` set xs \<Longrightarrow> filter (\<lambda>x. f x = k \<and> Q x) xs = []"
  by (induction xs) auto

lemma au_plus_un:
  "distinct (map f xs) \<Longrightarrow> length (filter (\<lambda>x. f x = k \<and> Q x) xs) \<le> 1"
proof (induction xs)
  case Nil
  then show ?case by simp
next
  case (Cons x xs)
  show ?case
  proof (cases "f x = k")
    case True
    with Cons.prems have "k \<notin> f ` set xs" by auto
    then have "filter (\<lambda>x. f x = k \<and> Q x) xs = []" by (rule filter_cle_absente)
    then show ?thesis by simp
  next
    case False
    with Cons show ?thesis by simp
  qed
qed

lemma candidats_distincts:
  "distinct (map e_id (engagements t)) \<Longrightarrow> distinct (map e_id (candidats debut proche t))"
  by (simp add: candidats_def distinct_map_filter)

lemma candidats_non_notifies:
  "e \<in> set (candidats debut proche t) \<Longrightarrow> \<not> deja_notifie debut t e"
  by (simp add: candidats_def)

lemma deja_notifie_intro:
  assumes "n \<in> set (notifications t)" and "n_engagement_id n = e_id e"
    and "n_statut n = envoyee \<or> n_statut n = echec" and "datetime_le debut (date_envoi n)"
  shows "deja_notifie debut t e"
  using assms by (auto simp add: deja_notifie_def list_ex_iff)


lemma deux_ticks:
  assumes d: "distinct (map e_id (engagements t))"
    and le: "datetime_le debut (utcnow env1)"
  shows "\<exists>ns. notifications (committed (runPeriodicTick env2 debut p2
              (nouvelle_requete (committed (runPeriodicTick env1 debut p1 (nouvelle_requete t))))))
            = notifications t @ ns
          \<and> (\<forall>k. length (filter (\<lambda>n. n_engagement_id n = k
                 \<and> (n_statut n = envoyee \<or> n_statut n = echec)) ns) \<le> 1)"
proof -
  let ?P = "\<lambda>k n. n_engagement_id n = k \<and> (n_statut n = envoyee \<or> n_statut n = echec)"
  let ?w1 = "runPeriodicTick env1 debut p1 (nouvelle_requete t)"
  let ?c1 = "candidats debut p1 t"
  have i1: "committed (nouvelle_requete t) = session (nouvelle_requete t)"
    by (simp add: nouvelle_requete_def)
  from tick_boucle_effet [OF i1, of ?c1 env1] obtain ns1
    where ns1: "map n_engagement_id ns1 = map e_id ?c1"
      "\<forall>n \<in> set ns1. date_envoi n = utcnow env1"
      "committed ?w1 = t\<lparr>notifications := notifications t @ ns1\<rparr>"
    by (auto simp add: runPeriodicTick_def session_nouvelle_requete)
  let ?t1 = "t\<lparr>notifications := notifications t @ ns1\<rparr>"
  let ?c2 = "candidats debut p2 ?t1"
  let ?w2 = "runPeriodicTick env2 debut p2 (nouvelle_requete ?t1)"
  have i2: "committed (nouvelle_requete ?t1) = session (nouvelle_requete ?t1)"
    by (simp add: nouvelle_requete_def)
  from tick_boucle_effet [OF i2, of ?c2 env2] obtain ns2
    where ns2: "map n_engagement_id ns2 = map e_id ?c2"
      "committed ?w2 = ?t1\<lparr>notifications := notifications ?t1 @ ns2\<rparr>"
    by (auto simp add: runPeriodicTick_def session_nouvelle_requete)
  have d1: "distinct (map n_engagement_id ns1)"
    using candidats_distincts [OF d, of debut p1] ns1(1) by simp
  have "distinct (map e_id (engagements ?t1))" using d by simp
  then have d2: "distinct (map n_engagement_id ns2)"
    using candidats_distincts [of ?t1 debut p2] ns2(1) by simp
  have "length (filter (?P k) (ns1 @ ns2)) \<le> 1" for k
  proof (cases "filter (?P k) ns1 = []")
    case True
    then show ?thesis using au_plus_un [OF d2, of k] by simp
  next
    case False
    then obtain n where n: "n \<in> set ns1" "?P k n"
      by (auto simp add: filter_empty_conv)
    have "k \<notin> n_engagement_id ` set ns2"
    proof
      assume "k \<in> n_engagement_id ` set ns2"
      then have "k \<in> set (map n_engagement_id ns2)" by simp
      then have "k \<in> set (map e_id ?c2)" by (simp only: ns2(1))
      then obtain e where e: "e \<in> set ?c2" "e_id e = k" by auto
      have "deja_notifie debut ?t1 e"
      proof (rule deja_notifie_intro [of n])
        show "n \<in> set (notifications ?t1)" using n(1) by simp
        show "n_engagement_id n = e_id e" using n(2) e(2) by simp
        show "n_statut n = envoyee \<or> n_statut n = echec" using n(2) by simp
        show "datetime_le debut (date_envoi n)" using ns1(2) n(1) le by simp
      qed
      with candidats_non_notifies [OF e(1)] show False by simp
    qed
    then have "filter (?P k) ns2 = []" by (rule filter_cle_absente)
    then show ?thesis using au_plus_un [OF d1, of k] by simp
  qed
  moreover have "notifications (committed ?w2) = notifications t @ (ns1 @ ns2)"
    by (simp add: ns2(2))
  ultimately show ?thesis
    unfolding ns1(3) by blast
qed

lemma rappel_manuel_notifications:
  "rappel_manuel (t\<lparr>notifications := ns\<rparr>) e m = rappel_manuel t e m"
  by (simp add: rappel_manuel_def total_paye_def montant_restant_def paiements_de_def)

lemma membre_de_notifications:
  "membre_de (t\<lparr>notifications := ns\<rparr>) e = membre_de t e"
  by (simp add: membre_de_def)

lemma notifier_membre_envoi_committed:
  assumes "query_get e_id (engagements t) (Some i) = Some e"
    and "membre_de t e = Some m"
    and "truthy (apikey_callmebot m)" and "truthy (telephone m)"
    and "\<forall>n tel key msg. gateway env n tel key msg \<noteq> Raised"
  shows "committed (snd (notifier_membre_engagement env i (nouvelle_requete t))) =
           t\<lparr>notifications := notifications t @
              [\<lparr>n_id = nouvel_id (map n_id (notifications t)), n_membre_id = m_id m,
                n_engagement_id = e_id e, n_message = rappel_manuel t e m,
                n_statut = envoyee, date_envoi = utcnow env\<rparr>]\<rparr>"
proof -
  let ?w = "nouvelle_requete t"
  obtain b where b: "gateway env (length (outbox ?w)) (telephone m) (apikey_callmebot m)
           (rappel_manuel (session ?w) e m) = Returned b"
    using assms(5) by (meson gw_result.exhaust)
  have q: "query_get e_id (engagements (session ?w)) (Some i) = Some e"
    and mb: "membre_de (session ?w) e = Some m"
    using assms(1,2) by (simp_all add: session_nouvelle_requete)
  note r = notifier_membre_envoi [OF q mb assms(3,4) b]
  show ?thesis
    unfolding r
    by (simp add: flash_msg_def commit_def add_notification_def nouvelle_requete_def)
qed

lemma notifier_membre_incomplet_committed:
  assumes "query_get e_id (engagements t) (Some i) = Some e"
    and "membre_de t e = None
         \<or> (\<exists>m. membre_de t e = Some m
                \<and> (\<not> truthy (apikey_callmebot m) \<or> \<not> truthy (telephone m)))"
  shows "committed (snd (notifier_membre_engagement env i (nouvelle_requete t))) = t"
proof -
  let ?w = "nouvelle_requete t"
  have q: "query_get e_id (engagements (session ?w)) (Some i) = Some e"
    using assms(1) by (simp add: session_nouvelle_requete)
  have k: "membre_de (session ?w) e = None
         \<or> (\<exists>m. membre_de (session ?w) e = Some m
                \<and> (\<not> truthy (apikey_callmebot m) \<or> \<not> truthy (telephone m)))"
    using assms(2) by (simp add: session_nouvelle_requete)
  note r = notifier_membre_incomplet [OF q k, of env]
  show ?thesis
    unfolding r by (simp add: flash_msg_def nouvelle_requete_def)
qed

text \<open>
  C5, as the code has it. Two runs of the periodic tick in the same period, the first
  not before the start of the period, on a database whose pledges have distinct keys:
  for each pledge, at most one of the notifications they append is a sent or a failed
  one. Two manual triggers in a row on the same pledge append two notifications when the
  member has a key and a phone and the gateway calls return; they append none when the
  member is missing or has no key or no phone.
\<close>

theorem tick_idempotent_manual_repeats:
  "(distinct (map e_id (engagements t)) \<and> datetime_le debut (utcnow env1)
      \<longrightarrow> (\<forall>k. length (filter (\<lambda>n. n_engagement_id n = k
                    \<and> (n_statut n = envoyee \<or> n_statut n = echec))
               (drop (length (notifications t))
                 (notifications (committed (runPeriodicTick env2 debut p2
                    (nouvelle_requete (committed (runPeriodicTick env1 debut p1
                       (nouvelle_requete t))))))))) \<le> 1))
   \<and> (\<forall>e m. query_get e_id (engagements t) (Some i) = Some e \<and> membre_de t e = Some m
          \<and> truthy (apikey_callmebot m) \<and> truthy (telephone m)
          \<and> (\<forall>n tel key msg. gateway env1 n tel key msg \<noteq> Raised)
          \<and> (\<forall>n tel key msg. gateway env2 n tel key msg \<noteq> Raised)
      \<longrightarrow> (\<exists>n1 n2. notifications (committed (snd (notifier_membre_engagement env2 i
                (nouvelle_requete (committed (snd (notifier_membre_engagement env1 i
                   (nouvelle_requete t)))))))) = notifications t @ [n1, n2]
            \<and> n_engagement_id n1 = e_id e \<and> n_engagement_id n2 = e_id e
            \<and> n_statut n1 = envoyee \<and> n_statut n2 = envoyee))
   \<and> (\<forall>e. query_get e_id (engagements t) (Some i) = Some e
          \<and> (membre_de t e = None
              \<or> (\<exists>m. membre_de t e = Some m
                    \<and> (\<not> truthy (apikey_callmebot m) \<or> \<not> truthy (telephone m))))
      \<longrightarrow> notifications (committed (snd (notifier_membre_engagement env2 i
                (nouvelle_requete (committed (snd (notifier_membre_engagement env1 i
                   (nouvelle_requete t)))))))) = notifications t)"
proof (intro conjI impI allI)
  fix k
  assume "distinct (map e_id (engagements t)) \<and> datetime_le debut (utcnow env1)"
  then obtain ns where ns: "notifications (committed (runPeriodicTick env2 debut p2
              (nouvelle_requete (committed (runPeriodicTick env1 debut p1 (nouvelle_requete t))))))
            = notifications t @ ns"
     "\<forall>k. length (filter (\<lambda>n. n_engagement_id n = k
                 \<and> (n_statut n = envoyee \<or> n_statut n = echec)) ns) \<le> 1"
    using deux_ticks [of t debut env1 env2 p2 p1] by blast
  show "length (filter (\<lambda>n. n_engagement_id n = k
                    \<and> (n_statut n = envoyee \<or> n_statut n = echec))
               (drop (length (notifications t))
                 (notifications (committed (runPeriodicTick env2 debut p2
                    (nouvelle_requete (committed (runPeriodicTick env1 debut p1
                       (nouvelle_requete t))))))))) \<le> 1"
    unfolding ns(1) using ns(2) by simp
next
  fix e m
  assume h: "query_get e_id (engagements t) (Some i) = Some e \<and> membre_de t e = Some m
          \<and> truthy (apikey_callmebot m) \<and> truthy (telephone m)
          \<and> (\<forall>n tel key msg. gateway env1 n tel key msg \<noteq> Raised)
          \<and> (\<forall>n tel key msg. gateway env2 n tel key msg \<noteq> Raised)"
  let ?n1 = "\<lparr>n_id = nouvel_id (map n_id (notifications t)), n_membre_id = m_id m,
                n_engagement_id = e_id e, n_message = rappel_manuel t e m,
                n_statut = envoyee, date_envoi = utcnow env1\<rparr>"
  let ?t1 = "t\<lparr>notifications := notifications t @ [?n1]\<rparr>"
  let ?n2 = "\<lparr>n_id = nouvel_id (map n_id (notifications ?t1)), n_membre_id = m_id m,
                n_engagement_id = e_id e, n_message = rappel_manuel ?t1 e m,
                n_statut = envoyee, date_envoi = utcnow env2\<rparr>"
  have c1: "committed (snd (notifier_membre_engagement env1 i (nouvelle_requete t))) = ?t1"
    using h by (intro notifier_membre_envoi_committed) simp_all
  have q: "query_get e_id (engagements ?t1) (Some i) = Some e" using h by simp
  have mb: "membre_de ?t1 e = Some m" using h by (simp add: membre_de_notifications)
  have c2: "committed (snd (notifier_membre_engagement env2 i (nouvelle_requete ?t1))) =
      ?t1\<lparr>notifications := notifications ?t1 @ [?n2]\<rparr>"
    using h by (intro notifier_membre_envoi_committed [OF q mb]) simp_all
  show "\<exists>n1 n2. notifications (committed (snd (notifier_membre_engagement env2 i
                (nouvelle_requete (committed (snd (notifier_membre_engagement env1 i
                   (nouvelle_requete t)))))))) = notifications t @ [n1, n2]
            \<and> n_engagement_id n1 = e_id e \<and> n_engagement_id n2 = e_id e
            \<and> n_statut n1 = envoyee \<and> n_statut n2 = envoyee"
    unfolding c1 c2 by (intro exI [of _ ?n1] exI [of _ ?n2]) simp
next
  fix e
  assume h: "query_get e_id (engagements t) (Some i) = Some e
          \<and> (membre_de t e = None
              \<or> (\<exists>m. membre_de t e = Some m
                    \<and> (\<not> truthy (apikey_callmebot m) \<or> \<not> truthy (telephone m))))"
  then have c: "committed (snd (notifier_membre_engagement env i (nouvelle_requete t))) = t"
    for env
    by (intro notifier_membre_incomplet_committed [of t i e]) simp_all
  show "notifications (committed (snd (notifier_membre_engagement env2 i
                (nouvelle_requete (committed (snd (notifier_membre_engagement env1 i
                   (nouvelle_requete t)))))))) = notifications t"
    by (simp add: c)
qed


lemma sample_cles_distinctes: "distinct (map e_id (engagements tables_test))"
  by (simp add: tables_test_def engagement_test_def)

lemma sample_debut: "datetime_le (Datetime (Date 2025 3 1) 0) (utcnow env_test)"
  by (simp add: env_test_def)

lemma sample_passerelle: "\<forall>n tel key msg. gateway env_test n tel key msg \<noteq> Raised"
  by (simp add: env_test_def)

lemma sample_sans_cle:
  "membre_de tables_test (engagement_test 2) = None
   \<or> (\<exists>m. membre_de tables_test (engagement_test 2) = Some m
          \<and> (\<not> truthy (apikey_callmebot m) \<or> \<not> truthy (telephone m)))"
  using sample_membre_2 by (simp add: membre_sans_cle_def)

theorem tick_idempotent_manual_repeats_witness:
  "(\<forall>k. length (filter (\<lambda>n. n_engagement_id n = k
                    \<and> (n_statut n = envoyee \<or> n_statut n = echec))
               (drop (length (notifications tables_test))
                 (notifications (committed (runPeriodicTick env_test (Datetime (Date 2025 3 1) 0)
                    (\<lambda>e. True)
                    (nouvelle_requete (committed (runPeriodicTick env_test
                       (Datetime (Date 2025 3 1) 0) (\<lambda>e. True)
                       (nouvelle_requete tables_test))))))))) \<le> 1)
   \<and> (\<exists>n1 n2. notifications (committed (snd (notifier_membre_engagement env_test 1
                (nouvelle_requete (committed (snd (notifier_membre_engagement env_test 1
                   (nouvelle_requete tables_test)))))))) = notifications tables_test @ [n1, n2]
            \<and> n_statut n1 = envoyee \<and> n_statut n2 = envoyee)
   \<and> notifications (committed (snd (notifier_membre_engagement env_test 2
                (nouvelle_requete (committed (snd (notifier_membre_engagement env_test 2
                   (nouvelle_requete tables_test)))))))) = notifications tables_test"
proof (intro conjI)
  let ?d = "Datetime (Date 2025 3 1) 0"
  note a = tick_idempotent_manual_repeats [of tables_test ?d env_test env_test "\<lambda>e. True"
      "\<lambda>e. True" 1]
  note b = tick_idempotent_manual_repeats [of tables_test ?d env_test env_test "\<lambda>e. True"
      "\<lambda>e. True" 2]
  from a sample_cles_distinctes sample_debut
  show "\<forall>k. length (filter (\<lambda>n. n_engagement_id n = k
                    \<and> (n_statut n = envoyee \<or> n_statut n = echec))
               (drop (length (notifications tables_test))
                 (notifications (committed (runPeriodicTick env_test ?d (\<lambda>e. True)
                    (nouvelle_requete (committed (runPeriodicTick env_test ?d (\<lambda>e. True)
                       (nouvelle_requete tables_test))))))))) \<le> 1"
    by blast
  have h: "query_get e_id (engagements tables_test) (Some 1) = Some (engagement_test 1)
      \<and> membre_de tables_test (engagement_test 1) = Some membre_complet
      \<and> truthy (apikey_callmebot membre_complet) \<and> truthy (telephone membre_complet)
      \<and> (\<forall>n tel key msg. gateway env_test n tel key msg \<noteq> Raised)
      \<and> (\<forall>n tel key msg. gateway env_test n tel key msg \<noteq> Raised)"
    using sample_engagement_1 sample_membre_1 sample_passerelle
    by (simp add: membre_complet_def)
  from a h show "\<exists>n1 n2. notifications (committed (snd (notifier_membre_engagement env_test 1
                (nouvelle_requete (committed (snd (notifier_membre_engagement env_test 1
                   (nouvelle_requete tables_test)))))))) = notifications tables_test @ [n1, n2]
            \<and> n_statut n1 = envoyee \<and> n_statut n2 = envoyee"
    by blast
  have g: "query_get e_id (engagements tables_test) (Some 2) = Some (engagement_test 2)
      \<and> (membre_de tables_test (engagement_test 2) = None
   \<or> (\<exists>m. membre_de tables_test (engagement_test 2) = Some m
          \<and> (\<not> truthy (apikey_callmebot m) \<or> \<not> truthy (telephone m))))"
    using sample_engagement_2 sample_sans_cle by simp
  from b g show "notifications (committed (snd (notifier_membre_engagement env_test 2
                (nouvelle_requete (committed (snd (notifier_membre_engagement env_test 2
                   (nouvelle_requete tables_test)))))))) = notifications tables_test"
    by blast
qed

text \<open>
  C5 as stated fails in its second half: the manual trigger, invoked twice on the pledge
  of the member without a key, leaves the table of notifications empty.
\<close>

theorem manual_twice_counterexample:
  "query_get e_id (engagements tables_test) (Some 2) = Some (engagement_test 2)
   \<and> notifications tables_test = []
   \<and> notifications (committed (snd (notifier_membre_engagement env_test 2
        (nouvelle_requete (committed (snd (notifier_membre_engagement env_test 2
           (nouvelle_requete tables_test)))))))) = []"
proof -
  have c: "committed (snd (notifier_membre_engagement env_test 2 (nouvelle_requete tables_test)))
      = tables_test"
    by (rule notifier_membre_incomplet_committed [OF sample_engagement_2 sample_sans_cle])
  have n: "notifications tables_test = []" by (simp add: tables_test_def)
  show ?thesis
    unfolding c using sample_engagement_2 n by simp
qed

section \<open>Amounts as floats\<close>

lemma pow2n_eq: "pow2n n = 2 ^ nat n"
proof (induction n rule: pow2n.induct)
  case (1 n)
  show ?case
  proof (cases "n \<le> 0")
    case True
    then show ?thesis by (subst pow2n.simps) simp
  next
    case False
    show ?thesis
    proof (cases "even n")
      case True
      with False "1.IH"(1) have h: "pow2n (n div 2) = 2 ^ nat (n div 2)" by simp
      from True False have "nat n = nat (n div 2) + nat (n div 2)" by (auto elim!: evenE)
      then have "(2::rat) ^ nat n = 2 ^ nat (n div 2) * 2 ^ nat (n div 2)"
        by (simp add: power_add [symmetric])
      with False True h show ?thesis by (subst pow2n.simps) (simp add: Let_def)
    next
      case odd: False
      with False "1.IH"(2) have h: "pow2n (n - 1) = 2 ^ nat (n - 1)" by simp
      from False have "nat n = Suc (nat (n - 1))" by simp
      then have "(2::rat) ^ nat n = 2 * 2 ^ nat (n - 1)" by simp
      with False odd h show ?thesis by (subst pow2n.simps) simp
    qed
  qed
qed

lemma bitlen_int_le: "n < 2 ^ k \<Longrightarrow> bitlen_int n \<le> int k"
proof (induction k arbitrary: n)
  case 0
  then have "n \<le> 0" by simp
  then show ?case by (subst bitlen_int.simps) simp
next
  case (Suc k)
  show ?case
  proof (cases "n \<le> 0")
    case True
    then show ?thesis by (subst bitlen_int.simps) simp
  next
    case False
    from Suc.prems have "n div 2 < 2 ^ k" by simp
    from Suc.IH [OF this] False show ?thesis by (subst bitlen_int.simps) simp
  qed
qed

lemma bitlen_int_1: "bitlen_int 1 = 1"
  by (subst bitlen_int.simps, subst bitlen_int.simps) simp

lemma ilog2_of_int_le:
  assumes "0 < n" and "n < 2 ^ 53"
  shows "ilog2 (of_int n) \<le> 52"
proof -
  have "bitlen_int n \<le> 53" using bitlen_int_le [of n 53] assms(2) by simp
  then show ?thesis
    by (simp add: ilog2_def Let_def bitlen_int_1)
qed

lemma half_even_of_int: "half_even (of_int m) = m"
  by (simp add: half_even_def Let_def)

lemma round64_of_int_pos:
  assumes "0 < n" and "n < 2 ^ 53"
  shows "round64 (of_int n) = Fin (of_int n)"
proof -
  define e where "e = max (ilog2 (of_int n)) (- 1022)"
  have e: "e \<le> 52" using ilog2_of_int_le [OF assms] by (simp add: e_def)
  define j where "j = nat (52 - e)"
  have q: "pow2 (e - 52) = 1 / 2 ^ j"
  proof (cases "e = 52")
    case True
    then show ?thesis by (simp add: pow2_def pow2n_eq j_def)
  next
    case False
    with e have "e - 52 < 0" by simp
    then show ?thesis by (simp add: pow2_def pow2n_eq j_def)
  qed
  have "(of_int n :: rat) / (1 / 2 ^ j) = of_int (n * 2 ^ j)" by simp
  then have h: "half_even ((of_int n :: rat) / (1 / 2 ^ j)) = n * 2 ^ j"
    by (simp only: half_even_of_int)
  have r: "of_int (half_even ((of_int n :: rat) / (1 / 2 ^ j))) * (1 / 2 ^ j) = (of_int n :: rat)"
    unfolding h by simp
  have "(of_int n :: rat) < 2 ^ 53" using assms(2) by (metis of_int_less_numeral_power_cancel_iff)
  also have "(2::rat) ^ 53 \<le> 2 ^ 1024" by (rule power_increasing) simp_all
  finally have big: "\<not> pow2 1024 \<le> (of_int n :: rat)" by (simp add: pow2_def pow2n_eq)
  have a: "\<bar>of_int n :: rat\<bar> = of_int n" using assms(1) by simp
  have nz: "(of_int n :: rat) \<noteq> 0" "(0::rat) < of_int n" using assms(1) by simp_all
  show ?thesis
    unfolding round64_def Let_def a e_def [symmetric] q r using nz big by simp
qed


lemma round64_of_int:
  assumes "0 \<le> n" and "n < 2 ^ 53"
  shows "round64 (of_int n) = Fin (of_int n)"
proof (cases "n = 0")
  case True
  then show ?thesis by (simp add: round64_def)
next
  case False
  with assms(1) have "0 < n" by simp
  then show ?thesis using assms(2) by (rule round64_of_int_pos)
qed

lemma fadd_of_int:
  assumes "0 \<le> a" and "0 \<le> b" and "a + b < 2 ^ 53"
  shows "fadd (Fin (of_int a)) (Fin (of_int b)) = Fin (of_int (a + b))"
proof -
  have "0 \<le> a + b" using assms(1,2) by simp
  from round64_of_int [OF this assms(3)] show ?thesis by simp
qed

lemma foldl_fadd_of_int:
  assumes "\<forall>k \<in> set ks. 0 \<le> k" and "0 \<le> s" and "s + sum_list ks < 2 ^ 53"
  shows "foldl fadd (Fin (of_int s)) (map (\<lambda>k. Fin (of_int k)) ks) = Fin (of_int (s + sum_list ks))"
  using assms
proof (induction ks arbitrary: s)
  case Nil
  then show ?case by simp
next
  case (Cons k ks)
  have k: "0 \<le> k" and rest: "\<forall>k \<in> set ks. 0 \<le> k" using Cons.prems(1) by simp_all
  have "0 \<le> sum_list ks" using rest by (simp add: sum_list_nonneg)
  with Cons.prems(3) have small: "s + k < 2 ^ 53" by simp
  have step: "fadd (Fin (of_int s)) (Fin (of_int k)) = Fin (of_int (s + k))"
    using Cons.prems(2) k small by (rule fadd_of_int)
  have "foldl fadd (Fin (of_int (s + k))) (map (\<lambda>k. Fin (of_int k)) ks)
        = Fin (of_int ((s + k) + sum_list ks))"
    using rest Cons.prems(2,3) k by (intro Cons.IH) (simp_all add: add.assoc)
  then show ?case using step by (simp add: add.assoc)
qed

lemma total_paye_of_int:
  assumes "\<forall>k \<in> set ks. 0 \<le> k" and "sum_list ks < 2 ^ 53"
    and "map montant (paiements_de t e) = map (\<lambda>k. Fin (of_int k)) ks"
  shows "total_paye t e = Fin (of_int (sum_list ks))"
  using foldl_fadd_of_int [of ks 0] assms by (simp add: total_paye_def)

lemma montant_restant_of_int:
  assumes "\<forall>k \<in> set ks. 0 \<le> k" and "sum_list ks < 2 ^ 53"
    and "map montant (paiements_de t e) = map (\<lambda>k. Fin (of_int k)) ks"
    and "montant_total e = Fin (of_int n)" and "0 \<le> n" and "n < 2 ^ 53"
  shows "montant_restant t e = Fin (of_int (max 0 (n - sum_list ks)))"
proof -
  let ?s = "sum_list ks"
  have tp: "total_paye t e = Fin (of_int ?s)" using assms(1-3) by (rule total_paye_of_int)
  have s0: "0 \<le> ?s" using assms(1) by (simp add: sum_list_nonneg)
  show ?thesis
  proof (cases "n \<le> ?s")
    case True
    then have "fle (montant_total e) (total_paye t e)" by (simp add: tp assms(4))
    then have "\<not> fgt (fsub (montant_total e) (total_paye t e)) (Fin 0)"
      by (rule fsub_le_not_positive)
    with True show ?thesis by (simp add: montant_restant_def Let_def)
  next
    case False
    then have pos: "0 < n - ?s" by simp
    have "n - ?s < 2 ^ 53" using assms(6) s0 by simp
    with pos have "round64 (of_int (n - ?s)) = Fin (of_int (n - ?s))"
      by (intro round64_of_int) simp_all
    then have d: "fsub (montant_total e) (total_paye t e) = Fin (of_int (n - ?s))"
      by (simp add: fsub_def tp assms(4))
    have "fgt (Fin (of_int (n - ?s))) (Fin 0)" using pos by (simp add: fgt_def)
    with pos d show ?thesis by (simp add: montant_restant_def Let_def)
  qed
qed

text \<open>
  C8, as the code has it. Amounts are binary floating-point numbers. An amount that is a
  whole number from 0 to below \<open>2 ^ 53\<close> is represented exactly; the sum of the payments
  of a pledge, when they are such whole numbers and their sum stays below \<open>2 ^ 53\<close>,
  is their exact sum; and the amount left on a pledge of such a whole total is then the
  exact difference, or 0 when the payments reach the total.
\<close>

theorem whole_amounts_exact:
  "(0 \<le> n \<and> n < 2 ^ 53 \<longrightarrow> round64 (of_int n) = Fin (of_int n))
   \<and> ((\<forall>k \<in> set ks. 0 \<le> k) \<and> sum_list ks < 2 ^ 53
        \<and> map montant (paiements_de t e) = map (\<lambda>k. Fin (of_int k)) ks
      \<longrightarrow> total_paye t e = Fin (of_int (sum_list ks))
          \<and> (0 \<le> n \<and> n < 2 ^ 53 \<and> montant_total e = Fin (of_int n)
               \<longrightarrow> montant_restant t e = Fin (of_int (max 0 (n - sum_list ks)))))"
  using round64_of_int [of n] total_paye_of_int [of ks t e] montant_restant_of_int [of ks t e n]
  by blast


theorem whole_amounts_exact_witness:
  "round64 100 = Fin 100
   \<and> total_paye (tables_test\<lparr>paiements :=
       [\<lparr>p_id = 1, p_engagement_id = 1, montant = Fin 40, date_paiement = Date 2025 3 1\<rparr>,
        \<lparr>p_id = 2, p_engagement_id = 1, montant = Fin 60, date_paiement = Date 2025 3 2\<rparr>]\<rparr>)
      (engagement_test 1) = Fin 100
   \<and> montant_restant (tables_test\<lparr>paiements :=
       [\<lparr>p_id = 1, p_engagement_id = 1, montant = Fin 40, date_paiement = Date 2025 3 1\<rparr>,
        \<lparr>p_id = 2, p_engagement_id = 1, montant = Fin 60, date_paiement = Date 2025 3 2\<rparr>]\<rparr>)
      (engagement_test 1) = Fin 0"
proof -
  let ?t = "tables_test\<lparr>paiements :=
       [\<lparr>p_id = 1, p_engagement_id = 1, montant = Fin 40, date_paiement = Date 2025 3 1\<rparr>,
        \<lparr>p_id = 2, p_engagement_id = 1, montant = Fin 60, date_paiement = Date 2025 3 2\<rparr>]\<rparr>"
  let ?e = "engagement_test 1"
  note k = whole_amounts_exact [of 100 "[40, 60]" ?t ?e]
  have h1: "(0::int) \<le> 100 \<and> (100::int) < 2 ^ 53" by simp
  have h2: "(\<forall>k \<in> set [40, 60 :: int]. 0 \<le> k) \<and> sum_list [40, 60 :: int] < 2 ^ 53
        \<and> map montant (paiements_de ?t ?e) = map (\<lambda>k. Fin (of_int k)) [40, 60]"
    by (simp add: paiements_de_def engagement_test_def)
  have h3: "(0::int) \<le> 100 \<and> (100::int) < 2 ^ 53 \<and> montant_total ?e = Fin (of_int 100)"
    by (simp add: engagement_test_def)
  from k h1 have a: "round64 (of_int 100) = Fin (of_int 100)" by blast
  from k h2 have b: "total_paye ?t ?e = Fin (of_int (sum_list [40, 60]))" by blast
  from k h2 h3 have c: "montant_restant ?t ?e = Fin (of_int (max 0 (100 - sum_list [40, 60])))"
    by blast
  from a b c show ?thesis by simp
qed

lemma float_of_decimal_080:
  "float_of_decimal ''0.80'' = Some (Fin (3602879701896397 / 4503599627370496))"
  by code_simp

lemma float_of_decimal_010:
  "float_of_decimal ''0.10'' = Some (Fin (3602879701896397 / 36028797018963968))"
  by code_simp

lemma float_of_decimal_070:
  "float_of_decimal ''0.70'' = Some (Fin (3152519739159347 / 4503599627370496))"
  by code_simp

lemma somme_dixiemes:
  "foldl fadd (Fin 0) [Fin (3602879701896397 / 36028797018963968),
                       Fin (3152519739159347 / 4503599627370496)]
   = Fin (7205759403792793 / 9007199254740992)"
  by code_simp

lemma reste_dixiemes:
  "fsub (Fin (3602879701896397 / 4503599627370496)) (Fin (7205759403792793 / 9007199254740992))
   = Fin (1 / 9007199254740992)"
  by code_simp

lemma apres_engagement_eq:
  "apres_engagement = tables_test\<lparr>engagements := engagements tables_test @ [engagement_4]\<rparr>"
proof -
  let ?w = "nouvelle_requete tables_test"
  have m: "query_get m_id (membres (session ?w)) (ef_membre_id engagement_dixiemes)
             = Some membre_complet"
    using sample_membre_par_cle by (simp add: session_nouvelle_requete engagement_dixiemes_def)
  have a: "lire_montant env_test (ef_montant engagement_dixiemes)
             = Inr (Fin (3602879701896397 / 4503599627370496))"
    by (simp add: lire_montant_def py_float_def env_test_def engagement_dixiemes_def
        float_of_decimal_080)
  have d: "py_strptime env_test (ef_date_limite engagement_dixiemes) = Inr (Date 2025 6 30)"
    using sample_date_30_juin by (simp add: engagement_dixiemes_def)
  have e: "nouvel_engagement ?w (m_id membre_complet) (Fin (3602879701896397 / 4503599627370496))
             (Date 2025 6 30) (lire_description (ef_description engagement_dixiemes))
           = engagement_4"
    by (simp add: nouvel_engagement_def session_nouvelle_requete tables_test_def
        engagement_test_def nouvel_id_def membre_complet_def engagement_dixiemes_def
        lire_description_def strip_def statut_defaut_def engagement_4_def)
  show ?thesis
    unfolding apres_engagement_def ajouter_engagement_valide [OF m a d] e
    by (simp add: session_nouvelle_requete)
qed


lemma engagement_4_trouve:
  "query_get e_id (engagements (tables_test\<lparr>engagements := engagements tables_test @ [engagement_4],
        paiements := ps\<rparr>)) (Some 4) = Some engagement_4"
  by (simp add: query_get_def tables_test_def engagement_test_def engagement_4_def)

lemma apres_paiement_1_eq:
  "apres_paiement_1 = tables_test\<lparr>engagements := engagements tables_test @ [engagement_4],
      paiements := [\<lparr>p_id = 1, p_engagement_id = 4,
         montant = Fin (3602879701896397 / 36028797018963968),
         date_paiement = Date 2025 3 2\<rparr>]\<rparr>"
proof -
  let ?t = "tables_test\<lparr>engagements := engagements tables_test @ [engagement_4]\<rparr>"
  let ?w = "nouvelle_requete ?t"
  have q: "query_get e_id (engagements (session ?w)) (pf_engagement_id (paiement_dixiemes ''0.10''))
             = Some engagement_4"
    using engagement_4_trouve [of "paiements tables_test"]
    by (simp add: session_nouvelle_requete paiement_dixiemes_def)
  have a: "lire_montant env_test (pf_montant (paiement_dixiemes ''0.10''))
             = Inr (Fin (3602879701896397 / 36028797018963968))"
    by (simp add: lire_montant_def py_float_def env_test_def paiement_dixiemes_def
        float_of_decimal_010)
  have p: "nouveau_paiement ?w (e_id engagement_4) (Fin (3602879701896397 / 36028797018963968))
             (lire_date_paiement env_test (pf_date_paiement (paiement_dixiemes ''0.10'')))
           = \<lparr>p_id = 1, p_engagement_id = 4,
               montant = Fin (3602879701896397 / 36028797018963968),
               date_paiement = Date 2025 3 2\<rparr>"
    using sample_date_2_mars
    by (simp add: nouveau_paiement_def session_nouvelle_requete tables_test_def nouvel_id_def
        engagement_4_def lire_date_paiement_def paiement_dixiemes_def)
  show ?thesis
    unfolding apres_paiement_1_def apres_engagement_eq ajouter_paiement_valide [OF q a] p
    by (simp add: session_nouvelle_requete tables_test_def)
qed

lemma apres_paiement_2_eq:
  "apres_paiement_2 = tables_test\<lparr>engagements := engagements tables_test @ [engagement_4],
      paiements := [\<lparr>p_id = 1, p_engagement_id = 4,
         montant = Fin (3602879701896397 / 36028797018963968),
         date_paiement = Date 2025 3 2\<rparr>,
        \<lparr>p_id = 2, p_engagement_id = 4,
         montant = Fin (3152519739159347 / 4503599627370496),
         date_paiement = Date 2025 3 2\<rparr>]\<rparr>"
proof -
  let ?p1 = "\<lparr>p_id = 1, p_engagement_id = 4,
         montant = Fin (3602879701896397 / 36028797018963968),
         date_paiement = Date 2025 3 2\<rparr>"
  let ?t = "tables_test\<lparr>engagements := engagements tables_test @ [engagement_4],
      paiements := [?p1]\<rparr>"
  let ?w = "nouvelle_requete ?t"
  have q: "query_get e_id (engagements (session ?w)) (pf_engagement_id (paiement_dixiemes ''0.70''))
             = Some engagement_4"
    using engagement_4_trouve [of "[?p1]"]
    by (simp add: session_nouvelle_requete paiement_dixiemes_def)
  have a: "lire_montant env_test (pf_montant (paiement_dixiemes ''0.70''))
             = Inr (Fin (3152519739159347 / 4503599627370496))"
    by (simp add: lire_montant_def py_float_def env_test_def paiement_dixiemes_def
        float_of_decimal_070)
  have p: "nouveau_paiement ?w (e_id engagement_4) (Fin (3152519739159347 / 4503599627370496))
             (lire_date_paiement env_test (pf_date_paiement (paiement_dixiemes ''0.70'')))
           = \<lparr>p_id = 2, p_engagement_id = 4,
               montant = Fin (3152519739159347 / 4503599627370496),
               date_paiement = Date 2025 3 2\<rparr>"
    using sample_date_2_mars
    by (simp add: nouveau_paiement_def session_nouvelle_requete nouvel_id_def
        engagement_4_def lire_date_paiement_def paiement_dixiemes_def)
  show ?thesis
    unfolding apres_paiement_2_def apres_paiement_1_eq ajouter_paiement_valide [OF q a] p
    by (simp add: session_nouvelle_requete)
qed

text \<open>
  C8 as stated fails: amounts written with two decimal digits do not come back without
  loss. A pledge of 0.80 is created and payments of 0.10 and 0.70 are recorded, all three
  through the handlers: the payments sum to less than the total, and the amount left is
  \<open>1 / 2 ^ 53\<close>, not 0.
\<close>

theorem decimal_amounts_counterexample:
  "float_of_decimal ''0.80'' = Some (Fin (3602879701896397 / 4503599627370496))
   \<and> float_of_decimal ''0.10'' = Some (Fin (3602879701896397 / 36028797018963968))
   \<and> float_of_decimal ''0.70'' = Some (Fin (3152519739159347 / 4503599627370496))
   \<and> query_get e_id (engagements apres_paiement_2) (Some 4) = Some engagement_4
   \<and> map montant (paiements_de apres_paiement_2 engagement_4) =
        [Fin (3602879701896397 / 36028797018963968), Fin (3152519739159347 / 4503599627370496)]
   \<and> total_paye apres_paiement_2 engagement_4 = Fin (7205759403792793 / 9007199254740992)
   \<and> total_paye apres_paiement_2 engagement_4 \<noteq> montant_total engagement_4
   \<and> \<not> fle (montant_total engagement_4) (total_paye apres_paiement_2 engagement_4)
   \<and> montant_restant apres_paiement_2 engagement_4 = Fin (1 / 9007199254740992)"
proof -
  have q: "query_get e_id (engagements apres_paiement_2) (Some 4) = Some engagement_4"
    unfolding apres_paiement_2_eq by (rule engagement_4_trouve)
  have ps: "map montant (paiements_de apres_paiement_2 engagement_4) =
        [Fin (3602879701896397 / 36028797018963968), Fin (3152519739159347 / 4503599627370496)]"
    unfolding apres_paiement_2_eq by (simp add: paiements_de_def engagement_4_def)
  have tp: "total_paye apres_paiement_2 engagement_4 = Fin (7205759403792793 / 9007199254740992)"
    unfolding total_paye_def ps by (rule somme_dixiemes)
  have mt: "montant_total engagement_4 = Fin (3602879701896397 / 4503599627370496)"
    by (simp add: engagement_4_def)
  have ne: "total_paye apres_paiement_2 engagement_4 \<noteq> montant_total engagement_4"
    unfolding tp mt by simp
  have lt: "\<not> fle (montant_total engagement_4) (total_paye apres_paiement_2 engagement_4)"
    unfolding tp mt by simp
  have mr: "montant_restant apres_paiement_2 engagement_4 = Fin (1 / 9007199254740992)"
    unfolding montant_restant_def tp mt reste_dixiemes Let_def by (simp add: fgt_def)
  show ?thesis
    using float_of_decimal_080 float_of_decimal_010 float_of_decimal_070 q ps tp ne lt mr
    by (intro conjI)
qed

end
